theory Spec2Isabelle
  imports Main
begin

section \<open>Values of the handlers\<close>

text \<open>
  The two Lambda handlers of the research pipeline, \<^verbatim>\<open>src/research.js\<close> (accept) and
  \<^verbatim>\<open>src/researchWorker.js\<close> (worker), are embedded as state-passing functions over an
  explicit world: the DynamoDB table, the SQS queue, the S3 bucket, the module-level
  credential cache and the list of SDK commands sent so far.

  A JavaScript string is a \<open>string\<close>; each \<open>char\<close> stands for one UTF-16 code unit, so
  \<open>length\<close> is the \<^verbatim>\<open>.length\<close> of the source. A JSON number \<open>JNum nonzero text\<close> is
  given by the two things the handlers observe of it: whether it is non-zero (its
  truthiness; \<^verbatim>\<open>JSON.parse\<close> yields no NaN) and its string conversion
  (\<^verbatim>\<open>Number.prototype.toString\<close>, as in \<^verbatim>\<open>1e+21\<close>). A JavaScript object is the list of
  its own properties in insertion order, each property once. What the console prints is
  not part of the model, but a template literal that is an argument of a console call
  is evaluated, and can throw, as in the source.
\<close>

datatype json =
    JNull
  | JBool bool
  | JNum bool string
  | JStr string
  | JArr "json list"
  | JObj "(string \<times> json) list"

text \<open>A thrown value: every error the handlers see is an \<^verbatim>\<open>Error\<close> carrying a message.\<close>

datatype error = Error (message: string)

text \<open>
  What \<^verbatim>\<open>JSON.parse\<close> makes of a message or request body: the body is absent (or the
  empty string), it is text that \<^verbatim>\<open>JSON.parse\<close> rejects with a SyntaxError, or it
  parses to a value.
\<close>

datatype raw_body = Absent | Malformed | Parses json

text \<open>
  Property access \<^verbatim>\<open>v.name\<close> for the two names the handlers read (\<^verbatim>\<open>taskId\<close>,
  \<^verbatim>\<open>topic\<close>): \<^verbatim>\<open>null\<close> throws a TypeError, an object yields the property or
  \<^verbatim>\<open>undefined\<close> (\<open>None\<close>), every other value yields \<^verbatim>\<open>undefined\<close>. The text of
  the TypeError's message is the engine's; the one here stands for it.
\<close>

fun get_prop :: "json \<Rightarrow> string \<Rightarrow> error + json option" where
  "get_prop JNull name = Inl (Error (''TypeError: cannot read property '' @ name @ '' of null''))"
| "get_prop (JObj props) name = Inr (map_of props name)"
| "get_prop _ name = Inr None"

text \<open>Assignment \<^verbatim>\<open>obj[name] = v\<close>: overwrite in place, or append a new property.\<close>

fun set_field :: "string \<Rightarrow> 'v \<Rightarrow> (string \<times> 'v) list \<Rightarrow> (string \<times> 'v) list" where
  "set_field k v [] = [(k, v)]"
| "set_field k v ((k', v') # rest) =
     (if k = k' then (k, v) # rest else (k', v') # set_field k v rest)"

text \<open>JavaScript truthiness of a JSON value (\<^verbatim>\<open>!x\<close> is its negation).\<close>

fun truthy :: "json \<Rightarrow> bool" where
  "truthy JNull = False"
| "truthy (JBool b) = b"
| "truthy (JNum nonzero text) = nonzero"
| "truthy (JStr s) = (s \<noteq> [])"
| "truthy (JArr _) = True"
| "truthy (JObj _) = True"

text \<open>\<^verbatim>\<open>!x\<close> for a value that may be \<^verbatim>\<open>undefined\<close>.\<close>

fun falsy :: "json option \<Rightarrow> bool" where
  "falsy None = True"
| "falsy (Some v) = (\<not> truthy v)"

text \<open>\<^verbatim>\<open>Array.prototype.join\<close> of strings, with the default separator.\<close>

fun join_comma :: "string list \<Rightarrow> string" where
  "join_comma [] = []"
| "join_comma [s] = s"
| "join_comma (s # t # rest) = s @ '','' @ join_comma (t # rest)"

text \<open>
  Conversions evaluated left to right: the first one that throws ends the evaluation.
\<close>

fun first_error :: "(error + 'a) list \<Rightarrow> error + 'a list" where
  "first_error [] = Inr []"
| "first_error (Inl err # rest) = Inl err"
| "first_error (Inr x # rest) =
     (case first_error rest of Inl err \<Rightarrow> Inl err | Inr xs \<Rightarrow> Inr (x # xs))"

text \<open>
  String conversion of a value inside a template literal \<^verbatim>\<open>`${v}`\<close>. An array is joined
  with commas, \<^verbatim>\<open>null\<close> elements giving the empty string. An object converts through
  \<^verbatim>\<open>Object.prototype.toString\<close> unless it has an own property \<^verbatim>\<open>toString\<close>: that
  property is a parsed value, hence not callable, and neither \<^verbatim>\<open>valueOf\<close> yields a
  primitive, so the conversion throws a TypeError (whose message text is the engine's).
\<close>

fun to_string :: "json \<Rightarrow> error + string" where
  "to_string JNull = Inr ''null''"
| "to_string (JBool b) = Inr (if b then ''true'' else ''false'')"
| "to_string (JNum nonzero text) = Inr text"
| "to_string (JStr s) = Inr s"
| "to_string (JArr xs) =
     (case first_error (map (\<lambda>x. if x = JNull then Inr [] else to_string x) xs) of
        Inl err \<Rightarrow> Inl err
      | Inr strs \<Rightarrow> Inr (join_comma strs))"
| "to_string (JObj props) =
     (if ''toString'' \<in> set (map fst props)
      then Inl (Error ''TypeError: Cannot convert object to primitive value'')
      else Inr ''[object Object]'')"

section \<open>The external services\<close>

text \<open>A content block of the provider's reply: its \<^verbatim>\<open>type\<close> and its \<^verbatim>\<open>text\<close>.\<close>

datatype block = Block (btype: string) (btext: string)

text \<open>
  The SDK commands. Table name, bucket, queue URL and secret id come from the process
  environment and are fixed, so they are left out. An \<^verbatim>\<open>UpdateExpression\<close>
  \<^verbatim>\<open>SET a = b, c = d\<close> is the list of its assignments \<open>[(a, b), (c, d)]\<close>.
\<close>

datatype command =
    GetCommand json
  | PutCommand "(string \<times> json) list"
  | UpdateCommand json "(string \<times> string) list" "(string \<times> string) list"
      "(string \<times> json) list"
  | SendMessageCommand json
  | GetSecretValueCommand
  | MessagesCreate string
  | PutObjectCommand string string string

text \<open>
  What the handlers cannot control: which call fails (with which error) given the
  commands sent before it, the secret, the provider's reply to a prompt, the UUID
  generator and the clock.
\<close>

record env =
  fault :: "command list \<Rightarrow> command \<Rightarrow> error option"
  secretString :: string
  content :: "command list \<Rightarrow> string \<Rightarrow> block list"
  randomUUID :: "command list \<Rightarrow> string"
  toISOString :: "command list \<Rightarrow> string"

record world =
  table :: "json \<rightharpoonup> (string \<times> json) list"
  queue :: "json list"
  bucket :: "string \<rightharpoonup> string \<times> string"
  cachedApiKey :: "string option"
  trace :: "command list"

text \<open>
  DynamoDB's reading of an update: a name starting with \<open>#\<close> is looked up in
  \<^verbatim>\<open>ExpressionAttributeNames\<close>, every value in \<^verbatim>\<open>ExpressionAttributeValues\<close>.
\<close>

definition resolve_name :: "(string \<times> string) list \<Rightarrow> string \<Rightarrow> string option" where
  "resolve_name names lhs =
     (case lhs of
        [] \<Rightarrow> None
      | c # _ \<Rightarrow> if c = CHR ''#'' then map_of names lhs else Some lhs)"

fun resolve_parts ::
  "(string \<times> string) list \<Rightarrow> (string \<times> json) list \<Rightarrow> (string \<times> string) list
     \<Rightarrow> (string \<times> json) list option" where
  "resolve_parts names vals [] = Some []"
| "resolve_parts names vals ((lhs, rhs) # rest) =
     (case (resolve_name names lhs, map_of vals rhs, resolve_parts names vals rest) of
        (Some n, Some v, Some sets) \<Rightarrow> Some ((n, v) # sets)
      | _ \<Rightarrow> None)"

fun set_fields :: "(string \<times> json) list \<Rightarrow> (string \<times> json) list \<Rightarrow> (string \<times> json) list" where
  "set_fields [] item = item"
| "set_fields ((n, v) # sets) item = set_fields sets (set_field n v item)"

text \<open>
  \<^verbatim>\<open>UpdateItem\<close> with a \<^verbatim>\<open>SET\<close> expression: an item that does not exist is created
  with its key; the named attributes are set and no other attribute is touched. An
  unresolved placeholder, two assignments to one attribute, or an assignment to the
  key attribute is rejected.
\<close>

definition apply_update ::
  "(string \<times> json) list option \<Rightarrow> json \<Rightarrow> (string \<times> string) list \<Rightarrow> (string \<times> string) list
     \<Rightarrow> (string \<times> json) list \<Rightarrow> (string \<times> json) list option" where
  "apply_update old key parts names vals =
     (case resolve_parts names vals parts of
        None \<Rightarrow> None
      | Some sets \<Rightarrow>
          if \<not> distinct (map fst sets) \<or> ''taskId'' \<in> set (map fst sets) then None
          else Some (set_fields sets
                       (case old of None \<Rightarrow> [(''taskId'', key)] | Some item \<Rightarrow> item)))"

text \<open>The effect of a command that the service accepts.\<close>

fun perform :: "command \<Rightarrow> world \<Rightarrow> error + world" where
  "perform (GetCommand key) w = Inr w"
| "perform (PutCommand item) w =
     (case map_of item ''taskId'' of
        None \<Rightarrow> Inl (Error ''ValidationException'')
      | Some key \<Rightarrow> Inr (w\<lparr>table := (table w)(key \<mapsto> item)\<rparr>))"
| "perform (UpdateCommand key parts names vals) w =
     (case apply_update (table w key) key parts names vals of
        None \<Rightarrow> Inl (Error ''ValidationException'')
      | Some item \<Rightarrow> Inr (w\<lparr>table := (table w)(key \<mapsto> item)\<rparr>))"
| "perform (SendMessageCommand body) w = Inr (w\<lparr>queue := queue w @ [body]\<rparr>)"
| "perform GetSecretValueCommand w = Inr w"
| "perform (MessagesCreate prompt) w = Inr w"
| "perform (PutObjectCommand key body ctype) w =
     Inr (w\<lparr>bucket := (bucket w)(key \<mapsto> (body, ctype))\<rparr>)"

text \<open>
  \<^verbatim>\<open>client.send(cmd)\<close>: the command is recorded; it throws when the environment makes
  it fail or the service rejects it, and takes effect otherwise.
\<close>

definition send :: "env \<Rightarrow> command \<Rightarrow> world \<Rightarrow> error option \<times> world" where
  "send e cmd w =
     (let w1 = w\<lparr>trace := trace w @ [cmd]\<rparr> in
      case fault e (trace w) cmd of
        Some err \<Rightarrow> (Some err, w1)
      | None \<Rightarrow> (case perform cmd w1 of Inl err \<Rightarrow> (Some err, w1) | Inr w2 \<Rightarrow> (None, w2)))"

section \<open>The worker: researchWorker.js\<close>

text \<open>
  The credential: the module-level cache when it holds a truthy (non-empty) key,
  otherwise the secret, which is fetched and cached.
\<close>

definition getAnthropicApiKey :: "env \<Rightarrow> world \<Rightarrow> (error + string) \<times> world" where
  "getAnthropicApiKey e w =
     (if (case cachedApiKey w of None \<Rightarrow> False | Some k \<Rightarrow> k \<noteq> []) then
        (case cachedApiKey w of None \<Rightarrow> (Inr [], w) | Some k \<Rightarrow> (Inr k, w))
      else
        (case send e GetSecretValueCommand w of
           (Some err, w1) \<Rightarrow> (Inl err, w1)
         | (None, w1) \<Rightarrow> (Inr (secretString e), w1\<lparr>cachedApiKey := Some (secretString e)\<rparr>)))"

text \<open>The loop of \<^verbatim>\<open>updateTaskStatus\<close> over \<^verbatim>\<open>Object.entries(extraFields)\<close>.\<close>

fun add_extra ::
  "(string \<times> json) list
     \<Rightarrow> (string \<times> string) list \<times> (string \<times> string) list \<times> (string \<times> json) list
     \<Rightarrow> (string \<times> string) list \<times> (string \<times> string) list \<times> (string \<times> json) list" where
  "add_extra [] acc = acc"
| "add_extra ((key, val) # rest) (expressionParts, attributeNames, attributeValues) =
     add_extra rest
       (expressionParts @ [(CHR ''#'' # key, CHR '':'' # key)],
        set_field (CHR ''#'' # key) key attributeNames,
        set_field (CHR '':'' # key) val attributeValues)"

text \<open>
  \<^verbatim>\<open>updateTaskStatus\<close>: the clock is read, the command is built from the two fixed
  assignments and one assignment per extra field, and it is sent.
\<close>

definition updateTaskStatus ::
  "env \<Rightarrow> json \<Rightarrow> string \<Rightarrow> (string \<times> json) list \<Rightarrow> world \<Rightarrow> error option \<times> world" where
  "updateTaskStatus e taskId status extraFields w =
     (case add_extra extraFields
             ([(''#status'', '':status''), (''updatedAt'', '':now'')],
              [(''#status'', ''status'')],
              [('':status'', JStr status), ('':now'', JStr (toISOString e (trace w)))]) of
        (expressionParts, attributeNames, attributeValues) \<Rightarrow>
          send e (UpdateCommand taskId expressionParts attributeNames attributeValues) w)"

text \<open>
  The first \<^verbatim>\<open>try\<close> of the handler: \<^verbatim>\<open>JSON.parse\<close> and the two property reads. Any
  exception in it is replaced by the malformed-body error.
\<close>

definition parse_message :: "raw_body \<Rightarrow> error + json option \<times> json option" where
  "parse_message body =
     (case body of
        Parses parsed \<Rightarrow>
          (case (get_prop parsed ''taskId'', get_prop parsed ''topic'') of
             (Inr taskId, Inr topic) \<Rightarrow> Inr (taskId, topic)
           | _ \<Rightarrow> Inl (Error ''Malformed SQS message body''))
      | _ \<Rightarrow> Inl (Error ''Malformed SQS message body''))"

text \<open>
  An attribute of the stored record of a task (\<open>None\<close> when there is no record or no
  such attribute), and its status as the idempotency guard reads it.
\<close>

definition item_field :: "world \<Rightarrow> json \<Rightarrow> string \<Rightarrow> json option" where
  "item_field w taskId name =
     (case table w taskId of None \<Rightarrow> None | Some item \<Rightarrow> map_of item name)"

definition status_of :: "world \<Rightarrow> json \<Rightarrow> json option" where
  "status_of w taskId = item_field w taskId ''status''"

text \<open>
  The body of the main \<^verbatim>\<open>try\<close> block (idempotency guard to final return); \<open>Inl\<close> is
  an exception thrown inside it. The string conversions are, in order, the
  \<^verbatim>\<open>${taskId}\<close> of the log line of the guard, the \<^verbatim>\<open>${topic}\<close> of the prompt, the
  \<^verbatim>\<open>${taskId}\<close> of the blob key and the \<^verbatim>\<open>${taskId}\<close> of the final log line.
\<close>

definition research_steps ::
  "env \<Rightarrow> json \<Rightarrow> json \<Rightarrow> world \<Rightarrow> (error + json option) \<times> world" where
  "research_steps e taskId topic w =
     (case send e (GetCommand taskId) w of
        (Some err, w1) \<Rightarrow> (Inl err, w1)
      | (None, w1) \<Rightarrow>
          if status_of w1 taskId = Some (JStr ''researched'') then
            (case to_string taskId of
               Inl err \<Rightarrow> (Inl err, w1)
             | Inr logged \<Rightarrow>
                 (Inr (Some (JObj [(''taskId'', taskId),
                                   (''status'', JStr ''already_researched'')])), w1))
          else
            (case updateTaskStatus e taskId ''researching'' [] w1 of
               (Some err, w2) \<Rightarrow> (Inl err, w2)
             | (None, w2) \<Rightarrow>
                 (case getAnthropicApiKey e w2 of
                    (Inl err, w3) \<Rightarrow> (Inl err, w3)
                  | (Inr apiKey, w3) \<Rightarrow>
                      (case to_string topic of
                         Inl err \<Rightarrow> (Inl err, w3)
                       | Inr topic_text \<Rightarrow>
                           (let prompt = ''Research the following topic thoroughly: '' @ topic_text in
                            case send e (MessagesCreate prompt) w3 of
                              (Some err, w4) \<Rightarrow> (Inl err, w4)
                            | (None, w4) \<Rightarrow>
                                (case find (\<lambda>b. btype b = ''text'') (content e (trace w3) prompt) of
                                   None \<Rightarrow> (Inl (Error ''Claude returned no text content''), w4)
                                 | Some textBlock \<Rightarrow>
                                     (case to_string taskId of
                                        Inl err \<Rightarrow> (Inl err, w4)
                                      | Inr id_text \<Rightarrow>
                                          (let s3Key = ''research/'' @ id_text @ ''.md'' in
                                           case send e (PutObjectCommand s3Key (btext textBlock)
                                                          ''text/markdown'') w4 of
                                             (Some err, w5) \<Rightarrow> (Inl err, w5)
                                           | (None, w5) \<Rightarrow>
                                               (case updateTaskStatus e taskId ''researched''
                                                       [(''s3Key'', JStr s3Key)] w5 of
                                                  (Some err, w6) \<Rightarrow> (Inl err, w6)
                                                | (None, w6) \<Rightarrow>
                                                    (case to_string taskId of
                                                       Inl err \<Rightarrow> (Inl err, w6)
                                                     | Inr logged \<Rightarrow>
                                                         (Inr (Some (JObj
                                                            [(''taskId'', taskId),
                                                             (''s3Key'', JStr s3Key),
                                                             (''status'', JStr ''researched'')])),
                                                          w6)))))))))))"

text \<open>
  \<^verbatim>\<open>module.exports.handler\<close> of the worker. The event is its \<^verbatim>\<open>Records\<close> (\<open>None\<close>
  when the property is missing), each record given by its body. \<open>Inl\<close> is the error the
  handler throws, \<open>Inr None\<close> a return of \<^verbatim>\<open>undefined\<close>. The tests \<^verbatim>\<open>if (!taskId)\<close>
  and \<^verbatim>\<open>if (!topic)\<close> take a falsy value the way they take a missing one. The
  \<^verbatim>\<open>catch\<close> branch first evaluates the \<^verbatim>\<open>${taskId}\<close> of its log line, outside the
  inner \<^verbatim>\<open>try\<close>: when that conversion throws, its TypeError is what the handler
  throws and no write is attempted.
\<close>

definition researchWorker_handler ::
  "env \<Rightarrow> raw_body list option \<Rightarrow> world \<Rightarrow> (error + json option) \<times> world" where
  "researchWorker_handler e Records w =
     (case Records of
        None \<Rightarrow> (Inr None, w)
      | Some [] \<Rightarrow> (Inr None, w)
      | Some (record # _) \<Rightarrow>
          (case parse_message record of
             Inl err \<Rightarrow> (Inl err, w)
           | Inr (taskId_opt, topic_opt) \<Rightarrow>
               (case (if falsy taskId_opt then None else taskId_opt) of
                  None \<Rightarrow> (Inl (Error ''Missing taskId in SQS message''), w)
                | Some taskId \<Rightarrow>
                      (case (if falsy topic_opt then None else topic_opt) of
                         None \<Rightarrow>
                           (case updateTaskStatus e taskId ''failed''
                                   [(''error'', JStr ''Missing topic in SQS message'')] w of
                              (_, w1) \<Rightarrow> (Inr None, w1))
                       | Some topic \<Rightarrow>
                           (case research_steps e taskId topic w of
                              (Inr result, w1) \<Rightarrow> (Inr result, w1)
                            | (Inl err, w1) \<Rightarrow>
                                (case to_string taskId of
                                   Inl type_error \<Rightarrow> (Inl type_error, w1)
                                 | Inr logged \<Rightarrow>
                                     (case updateTaskStatus e taskId ''failed''
                                             [(''error'', JStr (message err))] w1 of
                                        (_, w2) \<Rightarrow> (Inl err, w2))))))))"

section \<open>The accept handler: research.js\<close>

record response =
  statusCode :: nat
  body :: json

text \<open>\<^verbatim>\<open>JSON.parse(event.body || "{}")\<close>; \<open>None\<close> is the SyntaxError.\<close>

definition parse_body :: "raw_body \<Rightarrow> json option" where
  "parse_body event_body =
     (case event_body of Absent \<Rightarrow> Some (JObj []) | Malformed \<Rightarrow> None | Parses v \<Rightarrow> Some v)"

text \<open>
  The body of the outer \<^verbatim>\<open>try\<close> block; \<open>Inl\<close> is an exception that reaches the outer
  \<^verbatim>\<open>catch\<close>. The response body is the value handed to \<^verbatim>\<open>JSON.stringify\<close>, and so is
  the queue message.
\<close>

definition accept_steps :: "env \<Rightarrow> raw_body \<Rightarrow> world \<Rightarrow> (error + response) \<times> world" where
  "accept_steps e event_body w =
     (case parse_body event_body of
        None \<Rightarrow>
          (Inr \<lparr>statusCode = 400,
                body = JObj [(''error'', JStr ''Invalid JSON in request body'')]\<rparr>, w)
      | Some parsed \<Rightarrow>
          (case get_prop parsed ''topic'' of
             Inl err \<Rightarrow> (Inl err, w)
           | Inr topic_opt \<Rightarrow>
               (case (if falsy topic_opt then None else topic_opt) of
                  Some (JStr topic) \<Rightarrow>
                    if length topic > 500 then
                      (Inr \<lparr>statusCode = 400,
                            body = JObj [(''error'', JStr ''topic must be 500 characters or fewer'')]\<rparr>,
                       w)
                    else
                      (let taskId = randomUUID e (trace w);
                           now = toISOString e (trace w) in
                       case send e (PutCommand [(''taskId'', JStr taskId),
                                                (''status'', JStr ''pending''),
                                                (''topic'', JStr topic),
                                                (''createdAt'', JStr now),
                                                (''updatedAt'', JStr now)]) w of
                         (Some err, w1) \<Rightarrow> (Inl (Error ''Failed to create task record''), w1)
                       | (None, w1) \<Rightarrow>
                           (case send e (SendMessageCommand
                                           (JObj [(''taskId'', JStr taskId),
                                                  (''topic'', JStr topic)])) w1 of
                              (Some err, w2) \<Rightarrow>
                                (case send e (UpdateCommand (JStr taskId)
                                        [(''#status'', '':status''), (''updatedAt'', '':now''),
                                         (''#error'', '':error'')]
                                        [(''#status'', ''status''), (''#error'', ''error'')]
                                        [('':status'', JStr ''failed''),
                                         ('':now'', JStr (toISOString e (trace w2))),
                                         ('':error'', JStr ''Failed to place message on queue'')])
                                        w2 of
                                   (_, w3) \<Rightarrow>
                                     (Inl (Error ''Failed to place message on queue''), w3))
                            | (None, w2) \<Rightarrow>
                                (Inr \<lparr>statusCode = 202,
                                      body = JObj [(''taskId'', JStr taskId),
                                                   (''status'', JStr ''pending''),
                                                   (''message'',
                                                    JStr ''Research task queued for processing'')]\<rparr>,
                                 w2)))
                | _ \<Rightarrow>
                    (Inr \<lparr>statusCode = 400,
                          body = JObj [(''error'',
                                        JStr ''Missing required field: topic (must be a string)'')]\<rparr>,
                     w))))"

text \<open>
  \<^verbatim>\<open>module.exports.handler\<close> of research.js: the outer \<^verbatim>\<open>catch\<close> turns every
  exception into a 500 whose body is \<^verbatim>\<open>{ error: error.message || error }\<close> (an Error
  object with an empty message stringifies to \<^verbatim>\<open>{}\<close>).
\<close>

definition research_handler :: "env \<Rightarrow> raw_body \<Rightarrow> world \<Rightarrow> response \<times> world" where
  "research_handler e event_body w =
     (case accept_steps e event_body w of
        (Inr resp, w1) \<Rightarrow> (resp, w1)
      | (Inl err, w1) \<Rightarrow>
          (\<lparr>statusCode = 500,
            body = JObj [(''error'',
                          if message err \<noteq> [] then JStr (message err) else JObj [])]\<rparr>,
           w1))"


section \<open>Fixtures\<close>

text \<open>
  The default mocks of the test suites: every call succeeds, the provider answers with
  one text block, the UUID and the clock are fixed. The world starts empty.
\<close>

definition env_ok :: env where
  "env_ok =
     \<lparr>fault = (\<lambda>tr cmd. None),
      secretString = ''sk-ant-test-key'',
      content = (\<lambda>tr prompt. [Block ''text'' ''# Research Results'']),
      randomUUID = (\<lambda>tr. ''test-task-id-1234''),
      toISOString = (\<lambda>tr. ''2026-01-01T00:00:00.000Z'')\<rparr>"

definition world_empty :: world where
  "world_empty =
     \<lparr>table = Map.empty, queue = [], bucket = Map.empty, cachedApiKey = None, trace = []\<rparr>"

text \<open>A world whose table holds one task, \<open>t1\<close>, with the given status.\<close>

definition world_with :: "string \<Rightarrow> world" where
  "world_with status =
     world_empty\<lparr>table := [JStr ''t1'' \<mapsto>
       [(''taskId'', JStr ''t1''), (''status'', JStr status), (''topic'', JStr ''test''),
        (''createdAt'', JStr ''2025-12-31T00:00:00.000Z''),
        (''updatedAt'', JStr ''2025-12-31T00:00:00.000Z'')]]\<rparr>"

text \<open>
  The mocks of the test "re-throws original error even when status update fails": the
  provider call throws, and so does every write of the status \<^verbatim>\<open>failed\<close>.
\<close>

definition env_double :: env where
  "env_double =
     env_ok\<lparr>fault := (\<lambda>tr cmd.
       case cmd of
         MessagesCreate prompt \<Rightarrow> Some (Error ''Original Claude error'')
       | UpdateCommand key parts names vals \<Rightarrow>
           if map_of vals '':status'' = Some (JStr ''failed'')
           then Some (Error ''DynamoDB down too'') else None
       | _ \<Rightarrow> None)\<rparr>"

text \<open>
  The mocks of the tests on the provider's reply: a tool-use block before the text
  block, and an empty content array.
\<close>

definition env_mixed :: env where
  "env_mixed =
     env_ok\<lparr>content := (\<lambda>tr prompt. [Block ''tool_use'' [], Block ''text'' ''The actual research''])\<rparr>"

definition env_no_text :: env where
  "env_no_text = env_ok\<lparr>content := (\<lambda>tr prompt. [])\<rparr>"

text \<open>
  The mocks of the test "marks task as failed when SQS send fails": the queue rejects
  every message, every other call succeeds.
\<close>

definition env_sqs_down :: env where
  "env_sqs_down =
     env_ok\<lparr>fault := (\<lambda>tr cmd.
       case cmd of SendMessageCommand msg \<Rightarrow> Some (Error ''SQS unavailable'') | _ \<Rightarrow> None)\<rparr>"

text \<open>
  The mocks of the test "returns 500 even when DynamoDB update also fails after SQS
  failure": the first call succeeds and every later one fails.
\<close>

definition env_broken :: env where
  "env_broken =
     env_ok\<lparr>fault := (\<lambda>tr cmd. if tr = [] then None else Some (Error ''Everything is broken''))\<rparr>"

text \<open>An environment in which every read of the table throws and every other call succeeds.\<close>

definition env_get_down :: env where
  "env_get_down =
     env_ok\<lparr>fault := (\<lambda>tr cmd.
       case cmd of GetCommand key \<Rightarrow> Some (Error ''DynamoDB unavailable'') | _ \<Rightarrow> None)\<rparr>"

text \<open>The work item \<^verbatim>\<open>{taskId: "t1", topic: "test"}\<close> of the worker's tests, as an event.\<close>

definition event_t1 :: "raw_body list option" where
  "event_t1 = Some [Parses (JObj [(''taskId'', JStr ''t1''), (''topic'', JStr ''test'')])]"

section \<open>Facts about the services and the handlers\<close>

lemma map_of_set_field: "map_of (set_field k v xs) = (map_of xs)(k \<mapsto> v)"
  by (induction xs) auto

lemma send_trace: "trace (snd (send e cmd w)) = trace w @ [cmd]"
  by (cases cmd) (auto simp: send_def Let_def split: option.splits sum.splits)

lemma send_failed: "send e cmd w = (Some err, w') \<Longrightarrow> w' = w\<lparr>trace := trace w @ [cmd]\<rparr>"
  by (auto simp: send_def Let_def split: option.splits sum.splits)

lemma send_succeeded:
  "send e cmd w = (None, w') \<Longrightarrow> perform cmd (w\<lparr>trace := trace w @ [cmd]\<rparr>) = Inr w'"
  by (auto simp: send_def Let_def split: option.splits sum.splits)

lemma send_GetCommand:
  "fault e (trace w) (GetCommand key) = None \<Longrightarrow>
   send e (GetCommand key) w = (None, w\<lparr>trace := trace w @ [GetCommand key]\<rparr>)"
  by (simp add: send_def)

lemma parse_message_item:
  "parse_message (Parses (JObj [(''taskId'', taskId), (''topic'', topic)])) =
     Inr (Some taskId, Some topic)"
  by (simp add: parse_message_def)

lemma map_of_set_fields: "map_of (set_fields sets item) = map_of item ++ map_of (rev sets)"
  by (induction sets arbitrary: item) (auto simp: map_of_set_field)

lemma updateTaskStatus_plain:
  "updateTaskStatus e taskId status [] w =
     send e (UpdateCommand taskId
               [(''#status'', '':status''), (''updatedAt'', '':now'')]
               [(''#status'', ''status'')]
               [('':status'', JStr status), ('':now'', JStr (toISOString e (trace w)))]) w"
  by (simp add: updateTaskStatus_def)

lemma updateTaskStatus_s3Key:
  "updateTaskStatus e taskId status [(''s3Key'', v)] w =
     send e (UpdateCommand taskId
               [(''#status'', '':status''), (''updatedAt'', '':now''), (''#s3Key'', '':s3Key'')]
               [(''#status'', ''status''), (''#s3Key'', ''s3Key'')]
               [('':status'', JStr status), ('':now'', JStr (toISOString e (trace w))),
                ('':s3Key'', v)]) w"
  by (simp add: updateTaskStatus_def)

lemma updateTaskStatus_error:
  "updateTaskStatus e taskId status [(''error'', v)] w =
     send e (UpdateCommand taskId
               [(''#status'', '':status''), (''updatedAt'', '':now''), (''#error'', '':error'')]
               [(''#status'', ''status''), (''#error'', ''error'')]
               [('':status'', JStr status), ('':now'', JStr (toISOString e (trace w))),
                ('':error'', v)]) w"
  by (simp add: updateTaskStatus_def)

lemma apply_update_plain:
  "apply_update old key [(''#status'', '':status''), (''updatedAt'', '':now'')]
     [(''#status'', ''status'')] [('':status'', s), ('':now'', n)] =
   Some (set_fields [(''status'', s), (''updatedAt'', n)]
          (case old of None \<Rightarrow> [(''taskId'', key)] | Some item \<Rightarrow> item))"
  by (simp add: apply_update_def resolve_name_def)

lemma apply_update_s3Key:
  "apply_update old key
     [(''#status'', '':status''), (''updatedAt'', '':now''), (''#s3Key'', '':s3Key'')]
     [(''#status'', ''status''), (''#s3Key'', ''s3Key'')]
     [('':status'', s), ('':now'', n), ('':s3Key'', v)] =
   Some (set_fields [(''status'', s), (''updatedAt'', n), (''s3Key'', v)]
          (case old of None \<Rightarrow> [(''taskId'', key)] | Some item \<Rightarrow> item))"
  by (simp add: apply_update_def resolve_name_def)

lemma apply_update_error:
  "apply_update old key
     [(''#status'', '':status''), (''updatedAt'', '':now''), (''#error'', '':error'')]
     [(''#status'', ''status''), (''#error'', ''error'')]
     [('':status'', s), ('':now'', n), ('':error'', v)] =
   Some (set_fields [(''status'', s), (''updatedAt'', n), (''error'', v)]
          (case old of None \<Rightarrow> [(''taskId'', key)] | Some item \<Rightarrow> item))"
  by (simp add: apply_update_def resolve_name_def)

text \<open>What a successful failure-marking write leaves in the record.\<close>

lemma mark_failed_ok:
  assumes "updateTaskStatus e taskId ''failed'' [(''error'', v)] w = (None, w')"
  shows "status_of w' taskId = Some (JStr ''failed'')"
    and "item_field w' taskId ''error'' = Some v"
proof -
  from assms have "perform (UpdateCommand taskId
               [(''#status'', '':status''), (''updatedAt'', '':now''), (''#error'', '':error'')]
               [(''#status'', ''status''), (''#error'', ''error'')]
               [('':status'', JStr ''failed''), ('':now'', JStr (toISOString e (trace w))),
                ('':error'', v)]) (w\<lparr>trace := trace w @ [UpdateCommand taskId
               [(''#status'', '':status''), (''updatedAt'', '':now''), (''#error'', '':error'')]
               [(''#status'', ''status''), (''#error'', ''error'')]
               [('':status'', JStr ''failed''), ('':now'', JStr (toISOString e (trace w))),
                ('':error'', v)]]\<rparr>) = Inr w'"
    unfolding updateTaskStatus_error by (rule send_succeeded)
  then show "status_of w' taskId = Some (JStr ''failed'')"
    and "item_field w' taskId ''error'' = Some v"
    by (auto simp: apply_update_error status_of_def item_field_def map_of_set_field)
qed

lemma add_extra_parts:
  "fst (add_extra xs (p, n, v)) = p @ map (\<lambda>(k, val). (CHR ''#'' # k, CHR '':'' # k)) xs"
  by (induction xs arbitrary: p n v) auto

lemma add_extra_names:
  "map_of (fst (snd (add_extra xs (p, n, v)))) =
     map_of n ++ map_of (rev (map (\<lambda>(k, val). (CHR ''#'' # k, k)) xs))"
  by (induction xs arbitrary: p n v) (auto simp: map_of_set_field)

lemma add_extra_vals:
  "map_of (snd (snd (add_extra xs (p, n, v)))) =
     map_of v ++ map_of (rev (map (\<lambda>(k, val). (CHR '':'' # k, val)) xs))"
  by (induction xs arbitrary: p n v) (auto simp: map_of_set_field)

lemma resolve_parts_append:
  "resolve_parts N V (a @ b) =
     (case resolve_parts N V a of
        None \<Rightarrow> None
      | Some s1 \<Rightarrow> (case resolve_parts N V b of None \<Rightarrow> None | Some s2 \<Rightarrow> Some (s1 @ s2)))"
  by (induction a) (auto split: option.splits)

lemma resolve_parts_extra:
  "\<forall>(k, val) \<in> set xs. map_of Ns (CHR ''#'' # k) = Some k \<and> map_of V (CHR '':'' # k) = Some val \<Longrightarrow>
   resolve_parts Ns V (map (\<lambda>(k, val). (CHR ''#'' # k, CHR '':'' # k)) xs) = Some xs"
  by (induction xs) (auto simp: resolve_name_def)

lemma tagged_lookup:
  assumes "distinct (map fst xs)" and "(k, val) \<in> set xs"
  shows "map_of (rev (map (\<lambda>(k, val). (c # k, f k val)) xs)) (c # k) = Some (f k val)"
proof -
  have m: "map fst (map (\<lambda>(k, val). (c # k, f k val)) xs) = map ((#) c) (map fst xs)"
    by (induction xs) auto
  have "distinct (map ((#) c) (map fst xs))"
    using assms(1) by (simp only: distinct_map) (simp add: inj_on_def)
  then have "distinct (map fst (rev (map (\<lambda>(k, val). (c # k, f k val)) xs)))"
    by (simp only: rev_map [symmetric] m distinct_rev)
  moreover have "(c # k, f k val) \<in> set (rev (map (\<lambda>(k, val). (c # k, f k val)) xs))"
    using assms(2) by force
  ultimately show ?thesis by (rule map_of_is_SomeI)
qed

lemma tagged_absent:
  assumes "k \<notin> set (map fst xs)"
  shows "map_of (rev (map (\<lambda>(k, val). (c # k, f k val)) xs)) (c # k) = None"
  using assms by (force simp: map_of_eq_None_iff)

lemma updateTaskStatus_resolved:
  assumes d: "distinct (map fst xs)"
    and f: "\<forall>k \<in> set (map fst xs). k \<notin> {''status'', ''updatedAt'', ''taskId'', ''now''}"
    and a: "add_extra xs
             ([(''#status'', '':status''), (''updatedAt'', '':now'')],
              [(''#status'', ''status'')],
              [('':status'', s), ('':now'', n)]) = (parts, names, vals)"
  shows "apply_update old key parts names vals =
           Some (set_fields ([(''status'', s), (''updatedAt'', n)] @ xs)
                  (case old of None \<Rightarrow> [(''taskId'', key)] | Some item \<Rightarrow> item))"
proof -
  have p: "parts = [(''#status'', '':status''), (''updatedAt'', '':now'')] @
             map (\<lambda>(k, val). (CHR ''#'' # k, CHR '':'' # k)) xs"
    using add_extra_parts [of xs "[(''#status'', '':status''), (''updatedAt'', '':now'')]"
        "[(''#status'', ''status'')]" "[('':status'', s), ('':now'', n)]"] a
    by simp
  have nm: "map_of names =
          map_of [(''#status'', ''status'')] ++ map_of (rev (map (\<lambda>(k, val). (CHR ''#'' # k, k)) xs))"
    using add_extra_names [of xs "[(''#status'', '':status''), (''updatedAt'', '':now'')]"
        "[(''#status'', ''status'')]" "[('':status'', s), ('':now'', n)]"] a
    by simp
  have vl: "map_of vals =
          map_of [('':status'', s), ('':now'', n)] ++
          map_of (rev (map (\<lambda>(k, val). (CHR '':'' # k, val)) xs))"
    using add_extra_vals [of xs "[(''#status'', '':status''), (''updatedAt'', '':now'')]"
        "[(''#status'', ''status'')]" "[('':status'', s), ('':now'', n)]"] a
    by simp
  have st: "''status'' \<notin> set (map fst xs)" and nw: "''now'' \<notin> set (map fst xs)"
    and up: "''updatedAt'' \<notin> set (map fst xs)" and ti: "''taskId'' \<notin> set (map fst xs)"
    using f by auto
  have n1: "map_of names ''#status'' = Some ''status''"
    using tagged_absent [OF st, of "CHR ''#''" "\<lambda>k val. k"] by (simp add: nm map_add_def)
  have v1: "map_of vals '':status'' = Some s"
    using tagged_absent [OF st, of "CHR '':''" "\<lambda>k val. val"] by (simp add: vl map_add_def)
  have v2: "map_of vals '':now'' = Some n"
    using tagged_absent [OF nw, of "CHR '':''" "\<lambda>k val. val"] by (simp add: vl map_add_def)
  have ex: "\<forall>(k, val) \<in> set xs.
      map_of names (CHR ''#'' # k) = Some k \<and> map_of vals (CHR '':'' # k) = Some val"
  proof (clarify, rule conjI)
    fix k val assume m: "(k, val) \<in> set xs"
    show "map_of names (CHR ''#'' # k) = Some k"
      using tagged_lookup [OF d m, of "CHR ''#''" "\<lambda>k val. k"] by (simp add: nm)
    show "map_of vals (CHR '':'' # k) = Some val"
      using tagged_lookup [OF d m, of "CHR '':''" "\<lambda>k val. val"] by (simp add: vl)
  qed
  have r: "resolve_parts names vals parts = Some ([(''status'', s), (''updatedAt'', n)] @ xs)"
    unfolding p resolve_parts_append
    by (simp add: resolve_parts_extra [OF ex] resolve_name_def n1 v1 v2)
  have dd: "distinct (map fst ([(''status'', s), (''updatedAt'', n)] @ xs))"
    using d st up by simp
  have tt: "''taskId'' \<notin> set (map fst ([(''status'', s), (''updatedAt'', n)] @ xs))"
    using ti by simp
  show ?thesis
    unfolding apply_update_def r using dd tt by simp
qed

lemma find_first_text:
  assumes "\<forall>b \<in> set front. btype b \<noteq> ''text''"
  shows "find (\<lambda>b. btype b = ''text'') (front @ Block ''text'' str # rear) = Some (Block ''text'' str)"
  using assms by (induction front) auto

lemma find_no_text:
  assumes "\<forall>b \<in> set blocks. btype b \<noteq> ''text''"
  shows "find (\<lambda>b. btype b = ''text'') blocks = None"
  using assms by (induction blocks) auto

lemma send_no_fault:
  assumes "fault e (trace w) cmd = None"
  shows "send e cmd w =
     (case perform cmd (w\<lparr>trace := trace w @ [cmd]\<rparr>) of
        Inl err \<Rightarrow> (Some err, w\<lparr>trace := trace w @ [cmd]\<rparr>)
      | Inr w2 \<Rightarrow> (None, w2))"
  using assms by (simp add: send_def Let_def)

lemma getAnthropicApiKey_no_fault:
  assumes "\<And>tr cmd. fault e tr cmd = None"
  shows "\<exists>apiKey w' sent. getAnthropicApiKey e w = (Inr apiKey, w') \<and> table w' = table w \<and>
           bucket w' = bucket w \<and> queue w' = queue w \<and> trace w' = trace w @ sent"
  using assms by (auto simp: getAnthropicApiKey_def send_no_fault split: option.splits)

lemma updateTaskStatus_s3Key_no_fault:
  assumes "\<And>tr cmd. fault e tr cmd = None"
  shows "\<exists>w' cmd. updateTaskStatus e taskId status [(''s3Key'', v)] w = (None, w') \<and>
           status_of w' taskId = Some (JStr status) \<and> item_field w' taskId ''s3Key'' = Some v \<and>
           bucket w' = bucket w \<and> trace w' = trace w @ [cmd]"
  using assms
  by (simp add: updateTaskStatus_s3Key send_no_fault apply_update_s3Key status_of_def
      item_field_def map_of_set_field)

lemma updateTaskStatus_error_no_fault:
  assumes "\<And>tr cmd. fault e tr cmd = None"
  shows "\<exists>w' cmd. updateTaskStatus e taskId status [(''error'', v)] w = (None, w') \<and>
           status_of w' taskId = Some (JStr status) \<and> item_field w' taskId ''error'' = Some v \<and>
           bucket w' = bucket w \<and> trace w' = trace w @ [cmd]"
  using assms
  by (simp add: updateTaskStatus_error send_no_fault apply_update_error status_of_def
      item_field_def map_of_set_field)

text \<open>
  The steps of the main \<^verbatim>\<open>try\<close> block for an item of two strings when no call fails:
  the read, the update to \<^verbatim>\<open>researching\<close>, then (in \<open>sent\<close>) the secret fetch unless the
  key is cached and the provider call, leading to the world \<open>w4\<close> in which the reply is
  examined.
\<close>

lemma research_steps_no_fault:
  assumes nf: "\<And>tr cmd. fault e tr cmd = None"
    and nd: "status_of w (JStr taskId) \<noteq> Some (JStr ''researched'')"
    and reply: "\<And>tr. content e tr (''Research the following topic thoroughly: '' @ topic) = blocks"
  shows "\<exists>w4 sent.
           trace w4 = trace w @
             [GetCommand (JStr taskId),
              UpdateCommand (JStr taskId)
                [(''#status'', '':status''), (''updatedAt'', '':now'')]
                [(''#status'', ''status'')]
                [('':status'', JStr ''researching''),
                 ('':now'', JStr (toISOString e (trace w @ [GetCommand (JStr taskId)])))]] @ sent \<and>
           bucket w4 = bucket w \<and>
           research_steps e (JStr taskId) (JStr topic) w =
             (case find (\<lambda>b. btype b = ''text'') blocks of
                None \<Rightarrow> (Inl (Error ''Claude returned no text content''), w4)
              | Some textBlock \<Rightarrow>
                  (case updateTaskStatus e (JStr taskId) ''researched''
                          [(''s3Key'', JStr (''research/'' @ taskId @ ''.md''))]
                          (w4\<lparr>trace := trace w4 @
                                 [PutObjectCommand (''research/'' @ taskId @ ''.md'')
                                    (btext textBlock) ''text/markdown''],
                               bucket := (bucket w4)(''research/'' @ taskId @ ''.md'' \<mapsto>
                                    (btext textBlock, ''text/markdown''))\<rparr>) of
                     (Some err, w6) \<Rightarrow> (Inl err, w6)
                   | (None, w6) \<Rightarrow>
                       (Inr (Some (JObj [(''taskId'', JStr taskId),
                                         (''s3Key'', JStr (''research/'' @ taskId @ ''.md'')),
                                         (''status'', JStr ''researched'')])), w6)))"
proof -
  let ?get = "GetCommand (JStr taskId)"
  let ?upd = "UpdateCommand (JStr taskId)
                [(''#status'', '':status''), (''updatedAt'', '':now'')]
                [(''#status'', ''status'')]
                [('':status'', JStr ''researching''),
                 ('':now'', JStr (toISOString e (trace w @ [?get])))]"
  let ?w1 = "w\<lparr>trace := trace w @ [?get]\<rparr>"
  have g: "send e ?get w = (None, ?w1)"
    by (simp add: send_no_fault nf)
  have s1: "status_of ?w1 (JStr taskId) \<noteq> Some (JStr ''researched'')"
    using nd by (simp add: status_of_def item_field_def)
  obtain w2 where u: "updateTaskStatus e (JStr taskId) ''researching'' [] ?w1 = (None, w2)"
    and t2: "trace w2 = trace w @ [?get, ?upd]" and b2: "bucket w2 = bucket w"
    by (simp add: updateTaskStatus_plain send_no_fault nf apply_update_plain)
  obtain apiKey w3 sent where k: "getAnthropicApiKey e w2 = (Inr apiKey, w3)"
    and t3: "trace w3 = trace w2 @ sent" and b3: "bucket w3 = bucket w2"
    using getAnthropicApiKey_no_fault [OF nf, of w2] by blast
  let ?prompt = "''Research the following topic thoroughly: '' @ topic"
  let ?w4 = "w3\<lparr>trace := trace w3 @ [MessagesCreate ?prompt]\<rparr>"
  have m: "send e (MessagesCreate ?prompt) w3 = (None, ?w4)"
    by (simp add: send_no_fault nf)
  have p: "\<And>key body. send e (PutObjectCommand key body ''text/markdown'') ?w4 =
      (None, ?w4\<lparr>trace := trace ?w4 @ [PutObjectCommand key body ''text/markdown''],
                 bucket := (bucket ?w4)(key \<mapsto> (body, ''text/markdown''))\<rparr>)"
    by (simp add: send_no_fault nf)
  have "research_steps e (JStr taskId) (JStr topic) w =
             (case find (\<lambda>b. btype b = ''text'') blocks of
                None \<Rightarrow> (Inl (Error ''Claude returned no text content''), ?w4)
              | Some textBlock \<Rightarrow>
                  (case updateTaskStatus e (JStr taskId) ''researched''
                          [(''s3Key'', JStr (''research/'' @ taskId @ ''.md''))]
                          (?w4\<lparr>trace := trace ?w4 @
                                 [PutObjectCommand (''research/'' @ taskId @ ''.md'')
                                    (btext textBlock) ''text/markdown''],
                               bucket := (bucket ?w4)(''research/'' @ taskId @ ''.md'' \<mapsto>
                                    (btext textBlock, ''text/markdown''))\<rparr>) of
                     (Some err, w6) \<Rightarrow> (Inl err, w6)
                   | (None, w6) \<Rightarrow>
                       (Inr (Some (JObj [(''taskId'', JStr taskId),
                                         (''s3Key'', JStr (''research/'' @ taskId @ ''.md'')),
                                         (''status'', JStr ''researched'')])), w6)))"
    unfolding research_steps_def g using s1
    by (simp only: prod.case option.case if_False u k sum.case Let_def m reply p to_string.simps
        split: option.split prod.split)
  moreover have "trace ?w4 = trace w @ [?get, ?upd] @ (sent @ [MessagesCreate ?prompt])"
    "bucket ?w4 = bucket w"
    using t2 t3 b2 b3 by simp_all
  ultimately show ?thesis by blast
qed

text \<open>A whole delivery of an item of two strings when no call fails.\<close>

lemma worker_run_no_fault:
  assumes nf: "\<And>tr cmd. fault e tr cmd = None"
    and valid: "taskId \<noteq> []" "topic \<noteq> []"
    and nd: "status_of w (JStr taskId) \<noteq> Some (JStr ''researched'')"
    and reply: "\<And>tr. content e tr (''Research the following topic thoroughly: '' @ topic) = blocks"
    and run: "researchWorker_handler e
                (Some (Parses (JObj [(''taskId'', JStr taskId), (''topic'', JStr topic)]) # rest)) w =
              (result, w')"
  shows "find (\<lambda>b. btype b = ''text'') blocks = Some textBlock \<Longrightarrow>
            result = Inr (Some (JObj [(''taskId'', JStr taskId),
                                      (''s3Key'', JStr (''research/'' @ taskId @ ''.md'')),
                                      (''status'', JStr ''researched'')])) \<and>
            bucket w' (''research/'' @ taskId @ ''.md'') =
              Some (btext textBlock, ''text/markdown'') \<and>
            status_of w' (JStr taskId) = Some (JStr ''researched'') \<and>
            item_field w' (JStr taskId) ''s3Key'' = Some (JStr (''research/'' @ taskId @ ''.md''))"
    and "find (\<lambda>b. btype b = ''text'') blocks = None \<Longrightarrow>
            result = Inl (Error ''Claude returned no text content'') \<and>
            status_of w' (JStr taskId) = Some (JStr ''failed'') \<and>
            item_field w' (JStr taskId) ''error'' = Some (JStr ''Claude returned no text content'') \<and>
            bucket w' = bucket w"
    and "\<exists>more. trace w' = trace w @
             [GetCommand (JStr taskId),
              UpdateCommand (JStr taskId)
                [(''#status'', '':status''), (''updatedAt'', '':now'')]
                [(''#status'', ''status'')]
                [('':status'', JStr ''researching''),
                 ('':now'', JStr (toISOString e (trace w @ [GetCommand (JStr taskId)])))]] @ more"
proof -
  let ?key = "''research/'' @ taskId @ ''.md''"
  let ?h = "researchWorker_handler e
                (Some (Parses (JObj [(''taskId'', JStr taskId), (''topic'', JStr topic)]) # rest)) w"
  let ?first = "[GetCommand (JStr taskId),
              UpdateCommand (JStr taskId)
                [(''#status'', '':status''), (''updatedAt'', '':now'')]
                [(''#status'', ''status'')]
                [('':status'', JStr ''researching''),
                 ('':now'', JStr (toISOString e (trace w @ [GetCommand (JStr taskId)])))]]"
  have h: "?h =
      (case research_steps e (JStr taskId) (JStr topic) w of
         (Inr r, w1) \<Rightarrow> (Inr r, w1)
       | (Inl err, w1) \<Rightarrow>
           (case updateTaskStatus e (JStr taskId) ''failed'' [(''error'', JStr (message err))] w1 of
              (x, w2) \<Rightarrow> (Inl err, w2)))"
    using valid
    by (simp add: researchWorker_handler_def parse_message_item split: prod.splits sum.splits)
  from research_steps_no_fault [OF nf nd reply]
  obtain w4 sent where t4: "trace w4 = trace w @ ?first @ sent" and b4: "bucket w4 = bucket w"
    and r: "research_steps e (JStr taskId) (JStr topic) w =
                (case find (\<lambda>b. btype b = ''text'') blocks of
                   None \<Rightarrow> (Inl (Error ''Claude returned no text content''), w4)
                 | Some textBlock \<Rightarrow>
                     (case updateTaskStatus e (JStr taskId) ''researched'' [(''s3Key'', JStr ?key)]
                             (w4\<lparr>trace := trace w4 @
                                    [PutObjectCommand ?key (btext textBlock) ''text/markdown''],
                                  bucket := (bucket w4)(?key \<mapsto> (btext textBlock, ''text/markdown''))\<rparr>) of
                        (Some err, w6) \<Rightarrow> (Inl err, w6)
                      | (None, w6) \<Rightarrow>
                          (Inr (Some (JObj [(''taskId'', JStr taskId), (''s3Key'', JStr ?key),
                                            (''status'', JStr ''researched'')])), w6)))"
    by blast
  have good: "result = Inr (Some (JObj [(''taskId'', JStr taskId), (''s3Key'', JStr ?key),
                                 (''status'', JStr ''researched'')])) \<and>
            bucket w' ?key = Some (btext textBlock, ''text/markdown'') \<and>
            status_of w' (JStr taskId) = Some (JStr ''researched'') \<and>
            item_field w' (JStr taskId) ''s3Key'' = Some (JStr ?key) \<and>
            (\<exists>more. trace w' = trace w @ ?first @ more)"
    if f: "find (\<lambda>b. btype b = ''text'') blocks = Some textBlock" for textBlock
  proof -
    let ?put = "PutObjectCommand ?key (btext textBlock) ''text/markdown''"
    let ?w5 = "w4\<lparr>trace := trace w4 @ [?put],
                  bucket := (bucket w4)(?key \<mapsto> (btext textBlock, ''text/markdown''))\<rparr>"
    obtain w6 cmd where u: "updateTaskStatus e (JStr taskId) ''researched'' [(''s3Key'', JStr ?key)] ?w5 =
        (None, w6)"
      and s6: "status_of w6 (JStr taskId) = Some (JStr ''researched'')"
      and k6: "item_field w6 (JStr taskId) ''s3Key'' = Some (JStr ?key)"
      and b6: "bucket w6 = bucket ?w5"
      and t6: "trace w6 = trace ?w5 @ [cmd]"
      using updateTaskStatus_s3Key_no_fault [OF nf, of "JStr taskId" "''researched''" "JStr ?key" ?w5]
      by blast
    have "?h = (Inr (Some (JObj [(''taskId'', JStr taskId), (''s3Key'', JStr ?key),
                                 (''status'', JStr ''researched'')])), w6)"
      unfolding h r f using u by simp
    with run have "result = Inr (Some (JObj [(''taskId'', JStr taskId), (''s3Key'', JStr ?key),
                                 (''status'', JStr ''researched'')]))" and w': "w' = w6"
      by simp_all
    moreover have "trace w6 = trace w @ ?first @ (sent @ [?put, cmd])"
      using t6 t4 by simp
    ultimately show ?thesis
      using s6 k6 b6 by (simp del: append.simps)
  qed
  have bad: "result = Inl (Error ''Claude returned no text content'') \<and>
            status_of w' (JStr taskId) = Some (JStr ''failed'') \<and>
            item_field w' (JStr taskId) ''error'' = Some (JStr ''Claude returned no text content'') \<and>
            bucket w' = bucket w \<and>
            (\<exists>more. trace w' = trace w @ ?first @ more)"
    if f: "find (\<lambda>b. btype b = ''text'') blocks = None"
  proof -
    obtain w5 cmd where u: "updateTaskStatus e (JStr taskId) ''failed''
          [(''error'', JStr ''Claude returned no text content'')] w4 = (None, w5)"
      and s5: "status_of w5 (JStr taskId) = Some (JStr ''failed'')"
      and e5: "item_field w5 (JStr taskId) ''error'' = Some (JStr ''Claude returned no text content'')"
      and b5: "bucket w5 = bucket w4"
      and t5: "trace w5 = trace w4 @ [cmd]"
      using updateTaskStatus_error_no_fault [OF nf, of "JStr taskId" "''failed''"
          "JStr ''Claude returned no text content''" w4]
      by blast
    have "?h = (Inl (Error ''Claude returned no text content''), w5)"
      unfolding h r f using u by simp
    with run have "result = Inl (Error ''Claude returned no text content'')" and w': "w' = w5"
      by simp_all
    moreover have "trace w5 = trace w @ ?first @ (sent @ [cmd])"
      using t5 t4 by simp
    ultimately show ?thesis
      using s5 e5 b5 b4 by (simp del: append.simps)
  qed
  show "find (\<lambda>b. btype b = ''text'') blocks = Some textBlock \<Longrightarrow>
            result = Inr (Some (JObj [(''taskId'', JStr taskId), (''s3Key'', JStr ?key),
                                      (''status'', JStr ''researched'')])) \<and>
            bucket w' ?key = Some (btext textBlock, ''text/markdown'') \<and>
            status_of w' (JStr taskId) = Some (JStr ''researched'') \<and>
            item_field w' (JStr taskId) ''s3Key'' = Some (JStr ?key)"
    using good by blast
  show "find (\<lambda>b. btype b = ''text'') blocks = None \<Longrightarrow>
            result = Inl (Error ''Claude returned no text content'') \<and>
            status_of w' (JStr taskId) = Some (JStr ''failed'') \<and>
            item_field w' (JStr taskId) ''error'' = Some (JStr ''Claude returned no text content'') \<and>
            bucket w' = bucket w"
    using bad by blast
  show "\<exists>more. trace w' = trace w @ ?first @ more"
    using good bad by (cases "find (\<lambda>b. btype b = ''text'') blocks") blast+
qed

lemma accept_valid_steps:
  assumes "get_prop parsed ''topic'' = Inr (Some (JStr topic))"
    and "topic \<noteq> []" and "length topic \<le> 500"
  shows "accept_steps e (Parses parsed) w =
     (let taskId = randomUUID e (trace w);
          now = toISOString e (trace w) in
      case send e (PutCommand [(''taskId'', JStr taskId), (''status'', JStr ''pending''),
                               (''topic'', JStr topic), (''createdAt'', JStr now),
                               (''updatedAt'', JStr now)]) w of
        (Some err, w1) \<Rightarrow> (Inl (Error ''Failed to create task record''), w1)
      | (None, w1) \<Rightarrow>
          (case send e (SendMessageCommand
                          (JObj [(''taskId'', JStr taskId), (''topic'', JStr topic)])) w1 of
             (Some err, w2) \<Rightarrow>
               (case send e (UpdateCommand (JStr taskId)
                       [(''#status'', '':status''), (''updatedAt'', '':now''),
                        (''#error'', '':error'')]
                       [(''#status'', ''status''), (''#error'', ''error'')]
                       [('':status'', JStr ''failed''),
                        ('':now'', JStr (toISOString e (trace w2))),
                        ('':error'', JStr ''Failed to place message on queue'')]) w2 of
                  (_, w3) \<Rightarrow> (Inl (Error ''Failed to place message on queue''), w3))
           | (None, w2) \<Rightarrow>
               (Inr \<lparr>statusCode = 202,
                     body = JObj [(''taskId'', JStr taskId), (''status'', JStr ''pending''),
                                  (''message'', JStr ''Research task queued for processing'')]\<rparr>,
                w2)))"
  using assms by (simp add: accept_steps_def parse_body_def)

text \<open>The handler on an item of two non-empty strings: the \<^verbatim>\<open>try\<close> and its \<^verbatim>\<open>catch\<close>.\<close>

lemma worker_string_item:
  assumes "taskId \<noteq> []" and "topic \<noteq> []"
  shows "researchWorker_handler e
           (Some (Parses (JObj [(''taskId'', JStr taskId), (''topic'', JStr topic)]) # rest)) w =
         (case research_steps e (JStr taskId) (JStr topic) w of
            (Inr r, w1) \<Rightarrow> (Inr r, w1)
          | (Inl err, w1) \<Rightarrow>
              (Inl err,
               snd (updateTaskStatus e (JStr taskId) ''failed'' [(''error'', JStr (message err))] w1)))"
  using assms
  by (simp add: researchWorker_handler_def parse_message_item split: prod.splits sum.splits)

text \<open>A delivery for a task that is already \<^verbatim>\<open>researched\<close>, when the read succeeds.\<close>

lemma worker_skips_researched:
  assumes "taskId \<noteq> []" and "topic \<noteq> []"
    and "status_of w (JStr taskId) = Some (JStr ''researched'')"
    and "fault e (trace w) (GetCommand (JStr taskId)) = None"
  shows "researchWorker_handler e
           (Some (Parses (JObj [(''taskId'', JStr taskId), (''topic'', JStr topic)]) # rest)) w =
         (Inr (Some (JObj [(''taskId'', JStr taskId), (''status'', JStr ''already_researched'')])),
          w\<lparr>trace := trace w @ [GetCommand (JStr taskId)]\<rparr>)"
proof -
  have "research_steps e (JStr taskId) (JStr topic) w =
         (Inr (Some (JObj [(''taskId'', JStr taskId), (''status'', JStr ''already_researched'')])),
          w\<lparr>trace := trace w @ [GetCommand (JStr taskId)]\<rparr>)"
    using assms(3,4) by (simp add: research_steps_def send_GetCommand status_of_def item_field_def)
  then show ?thesis
    by (simp add: worker_string_item [OF assms(1,2)])
qed

text \<open>
  A delivery whose read of the record throws: the \<^verbatim>\<open>catch\<close> branch sends the update to
  \<^verbatim>\<open>failed\<close>, whatever the stored status is, and the handler throws the read's error.
\<close>

lemma worker_read_fails:
  assumes "taskId \<noteq> []" and "topic \<noteq> []"
    and "fault e (trace w) (GetCommand (JStr taskId)) = Some E"
  shows "researchWorker_handler e
           (Some (Parses (JObj [(''taskId'', JStr taskId), (''topic'', JStr topic)]) # rest)) w =
         (Inl E,
          snd (updateTaskStatus e (JStr taskId) ''failed'' [(''error'', JStr (message E))]
                 (w\<lparr>trace := trace w @ [GetCommand (JStr taskId)]\<rparr>)))"
proof -
  have "research_steps e (JStr taskId) (JStr topic) w =
      (Inl E, w\<lparr>trace := trace w @ [GetCommand (JStr taskId)]\<rparr>)"
    using assms(3) by (simp add: research_steps_def send_def)
  then show ?thesis
    by (simp add: worker_string_item [OF assms(1,2)])
qed

text \<open>What an attempt to mark a task \<^verbatim>\<open>failed\<close> sends and leaves, by its outcome.\<close>

lemma mark_failed_outcome:
  shows "trace (snd (updateTaskStatus e taskId ''failed'' [(''error'', v)] w)) =
           trace w @ [UpdateCommand taskId
               [(''#status'', '':status''), (''updatedAt'', '':now''), (''#error'', '':error'')]
               [(''#status'', ''status''), (''#error'', ''error'')]
               [('':status'', JStr ''failed''), ('':now'', JStr (toISOString e (trace w))),
                ('':error'', v)]]"
    and "bucket (snd (updateTaskStatus e taskId ''failed'' [(''error'', v)] w)) = bucket w"
    and "fst (updateTaskStatus e taskId ''failed'' [(''error'', v)] w) = None \<Longrightarrow>
           status_of (snd (updateTaskStatus e taskId ''failed'' [(''error'', v)] w)) taskId =
             Some (JStr ''failed'') \<and>
           item_field (snd (updateTaskStatus e taskId ''failed'' [(''error'', v)] w)) taskId ''error'' =
             Some v"
    and "fst (updateTaskStatus e taskId ''failed'' [(''error'', v)] w) \<noteq> None \<Longrightarrow>
           table (snd (updateTaskStatus e taskId ''failed'' [(''error'', v)] w)) = table w"
proof -
  let ?u = "updateTaskStatus e taskId ''failed'' [(''error'', v)] w"
  let ?cmd = "UpdateCommand taskId
               [(''#status'', '':status''), (''updatedAt'', '':now''), (''#error'', '':error'')]
               [(''#status'', ''status''), (''#error'', ''error'')]
               [('':status'', JStr ''failed''), ('':now'', JStr (toISOString e (trace w))),
                ('':error'', v)]"
  show "trace (snd ?u) = trace w @ [?cmd]"
    unfolding updateTaskStatus_error by (rule send_trace)
  show "bucket (snd ?u) = bucket w"
    unfolding updateTaskStatus_error
    by (auto simp: send_def Let_def split: option.splits sum.splits)
  show "status_of (snd ?u) taskId = Some (JStr ''failed'') \<and>
        item_field (snd ?u) taskId ''error'' = Some v" if "fst ?u = None"
    using that mark_failed_ok [of e taskId v w "snd ?u"] by (metis prod.collapse)
  show "table (snd ?u) = table w" if "fst ?u \<noteq> None"
  proof -
    from that obtain err where "?u = (Some err, snd ?u)"
      by (metis not_None_eq prod.collapse)
    then have "snd ?u = w\<lparr>trace := trace w @ [?cmd]\<rparr>"
      unfolding updateTaskStatus_error by (rule send_failed)
    then show ?thesis by simp
  qed
qed





text \<open>The validation steps of the accept handler.\<close>

lemma accept_rejects_invalid:
  assumes "event_body = Malformed \<or>
           (\<exists>parsed topic_opt. parse_body event_body = Some parsed \<and>
              get_prop parsed ''topic'' = Inr topic_opt \<and>
              (falsy topic_opt \<or> (\<forall>s. topic_opt \<noteq> Some (JStr s)) \<or>
               (\<exists>s. topic_opt = Some (JStr s) \<and> length s > 500)))"
  shows "\<exists>msg. research_handler e event_body w =
           (\<lparr>statusCode = 400, body = JObj [(''error'', JStr msg)]\<rparr>, w)"
  using assms
proof (elim disjE exE conjE)
  assume "event_body = Malformed"
  then show ?thesis
    by (simp add: research_handler_def accept_steps_def parse_body_def)
next
  fix parsed topic_opt
  assume p: "parse_body event_body = Some parsed" "get_prop parsed ''topic'' = Inr topic_opt"
    and "falsy topic_opt"
  then show ?thesis
    by (simp add: research_handler_def accept_steps_def)
next
  fix parsed topic_opt
  assume p: "parse_body event_body = Some parsed" "get_prop parsed ''topic'' = Inr topic_opt"
    and "\<forall>s. topic_opt \<noteq> Some (JStr s)"
  then show ?thesis
    by (cases topic_opt; cases "the topic_opt")
       (simp_all add: research_handler_def accept_steps_def)
next
  fix parsed topic_opt s
  assume p: "parse_body event_body = Some parsed" "get_prop parsed ''topic'' = Inr topic_opt"
    and "topic_opt = Some (JStr s)" "length s > 500"
  then show ?thesis
    by (simp add: research_handler_def accept_steps_def)
qed

section \<open>The worker under the queue's contract\<close>

text \<open>
  Claim C4 (poison messages). A delivered record whose body does not parse (it is
  missing, is not JSON, or is the JSON \<^verbatim>\<open>null\<close>, whose property read throws inside the
  same \<^verbatim>\<open>try\<close>), and a parsed record whose \<^verbatim>\<open>taskId\<close> is absent or otherwise falsy,
  make the worker throw, and the world (table, queue, bucket, credential cache and the
  list of commands sent) is exactly what it was: no store write, no secret fetch, no
  provider call, no blob write.
\<close>

theorem worker_poison_message:
  "(record = Malformed \<or> record = Absent \<or> record = Parses JNull \<longrightarrow>
      researchWorker_handler e (Some (record # rest)) w =
        (Inl (Error ''Malformed SQS message body''), w)) \<and>
   (\<forall>parsed taskId_opt.
      record = Parses parsed \<and> get_prop parsed ''taskId'' = Inr taskId_opt \<and> falsy taskId_opt \<longrightarrow>
      researchWorker_handler e (Some (record # rest)) w =
        (Inl (Error ''Missing taskId in SQS message''), w))"
proof (intro conjI impI allI)
  assume "record = Malformed \<or> record = Absent \<or> record = Parses JNull"
  then have "parse_message record = Inl (Error ''Malformed SQS message body'')"
    by (auto simp: parse_message_def)
  then show "researchWorker_handler e (Some (record # rest)) w =
        (Inl (Error ''Malformed SQS message body''), w)"
    by (simp add: researchWorker_handler_def)
next
  fix parsed taskId_opt
  assume a: "record = Parses parsed \<and> get_prop parsed ''taskId'' = Inr taskId_opt \<and> falsy taskId_opt"
  then obtain topic_opt where "get_prop parsed ''topic'' = Inr topic_opt"
    by (cases parsed) auto
  with a have "parse_message record = Inr (taskId_opt, topic_opt)"
    by (simp add: parse_message_def)
  with a show "researchWorker_handler e (Some (record # rest)) w =
        (Inl (Error ''Missing taskId in SQS message''), w)"
    by (simp add: researchWorker_handler_def)
qed

text \<open>The two cases at the inputs of the test suite.\<close>

theorem worker_poison_message_witness:
  "researchWorker_handler env_ok (Some [Malformed]) world_empty =
     (Inl (Error ''Malformed SQS message body''), world_empty) \<and>
   get_prop (JObj [(''topic'', JStr ''test'')]) ''taskId'' = Inr None \<and> falsy None \<and>
   researchWorker_handler env_ok (Some [Parses (JObj [(''topic'', JStr ''test'')])]) world_empty =
     (Inl (Error ''Missing taskId in SQS message''), world_empty)"
  using worker_poison_message [of Malformed env_ok "[]" world_empty]
    worker_poison_message [of "Parses (JObj [(''topic'', JStr ''test'')])" env_ok "[]" world_empty]
  by simp

text \<open>
  Claim C5 (missing topic). A work item that parses and has a truthy \<^verbatim>\<open>taskId\<close> but no
  (or a falsy) \<^verbatim>\<open>topic\<close> makes the worker send exactly one command, the update of the
  record to \<^verbatim>\<open>failed\<close> with the error \<^verbatim>\<open>Missing topic in SQS message\<close>, and return
  \<^verbatim>\<open>undefined\<close>: it does not throw, whether or not that write succeeds. When the write
  succeeds the record has \<^verbatim>\<open>status = failed\<close> and that error; when it fails the table
  is unchanged.
\<close>

theorem worker_missing_topic:
  assumes "get_prop parsed ''taskId'' = Inr (Some taskId)" and "truthy taskId"
    and "get_prop parsed ''topic'' = Inr topic_opt" and "falsy topic_opt"
  shows "fst (researchWorker_handler e (Some (Parses parsed # rest)) w) = Inr None \<and>
         trace (snd (researchWorker_handler e (Some (Parses parsed # rest)) w)) =
           trace w @ [UpdateCommand taskId
               [(''#status'', '':status''), (''updatedAt'', '':now''), (''#error'', '':error'')]
               [(''#status'', ''status''), (''#error'', ''error'')]
               [('':status'', JStr ''failed''), ('':now'', JStr (toISOString e (trace w))),
                ('':error'', JStr ''Missing topic in SQS message'')]] \<and>
         (fst (updateTaskStatus e taskId ''failed''
                 [(''error'', JStr ''Missing topic in SQS message'')] w) = None \<longrightarrow>
          status_of (snd (researchWorker_handler e (Some (Parses parsed # rest)) w)) taskId =
            Some (JStr ''failed'') \<and>
          item_field (snd (researchWorker_handler e (Some (Parses parsed # rest)) w)) taskId ''error'' =
            Some (JStr ''Missing topic in SQS message'')) \<and>
         (fst (updateTaskStatus e taskId ''failed''
                 [(''error'', JStr ''Missing topic in SQS message'')] w) \<noteq> None \<longrightarrow>
          table (snd (researchWorker_handler e (Some (Parses parsed # rest)) w)) = table w)"
proof -
  let ?u = "updateTaskStatus e taskId ''failed'' [(''error'', JStr ''Missing topic in SQS message'')] w"
  have pm: "parse_message (Parses parsed) = Inr (Some taskId, topic_opt)"
    using assms(1,3) by (simp add: parse_message_def)
  have h: "researchWorker_handler e (Some (Parses parsed # rest)) w = (Inr None, snd ?u)"
    using assms(2,4) pm by (simp add: researchWorker_handler_def split: prod.splits)
  have t: "trace (snd ?u) = trace w @ [UpdateCommand taskId
               [(''#status'', '':status''), (''updatedAt'', '':now''), (''#error'', '':error'')]
               [(''#status'', ''status''), (''#error'', ''error'')]
               [('':status'', JStr ''failed''), ('':now'', JStr (toISOString e (trace w))),
                ('':error'', JStr ''Missing topic in SQS message'')]]"
    unfolding updateTaskStatus_error by (rule send_trace)
  have ok: "fst ?u = None \<longrightarrow> status_of (snd ?u) taskId = Some (JStr ''failed'') \<and>
      item_field (snd ?u) taskId ''error'' = Some (JStr ''Missing topic in SQS message'')"
    using mark_failed_ok [of e taskId _ w "snd ?u"] by (metis prod.collapse)
  have ko: "fst ?u \<noteq> None \<longrightarrow> table (snd ?u) = table w"
  proof
    assume "fst ?u \<noteq> None"
    then obtain err where "?u = (Some err, snd ?u)"
      by (metis not_None_eq prod.collapse)
    then have "snd ?u = w\<lparr>trace := trace w @ [UpdateCommand taskId
               [(''#status'', '':status''), (''updatedAt'', '':now''), (''#error'', '':error'')]
               [(''#status'', ''status''), (''#error'', ''error'')]
               [('':status'', JStr ''failed''), ('':now'', JStr (toISOString e (trace w))),
                ('':error'', JStr ''Missing topic in SQS message'')]]\<rparr>"
      unfolding updateTaskStatus_error by (rule send_failed)
    then show "table (snd ?u) = table w"
      by simp
  qed
  show ?thesis using h t ok ko by simp
qed

text \<open>
  The test "marks task failed and returns when topic is missing", and the same delivery
  when the write of \<^verbatim>\<open>failed\<close> is refused.
\<close>

theorem worker_missing_topic_witness:
  "get_prop (JObj [(''taskId'', JStr ''t1'')]) ''taskId'' = Inr (Some (JStr ''t1'')) \<and>
   truthy (JStr ''t1'') \<and>
   get_prop (JObj [(''taskId'', JStr ''t1'')]) ''topic'' = Inr None \<and> falsy None \<and>
   fst (updateTaskStatus env_ok (JStr ''t1'') ''failed''
          [(''error'', JStr ''Missing topic in SQS message'')] (world_with ''pending'')) = None \<and>
   fst (researchWorker_handler env_ok (Some [Parses (JObj [(''taskId'', JStr ''t1'')])])
          (world_with ''pending'')) = Inr None \<and>
   status_of (snd (researchWorker_handler env_ok (Some [Parses (JObj [(''taskId'', JStr ''t1'')])])
          (world_with ''pending''))) (JStr ''t1'') = Some (JStr ''failed'') \<and>
   fst (updateTaskStatus env_double (JStr ''t1'') ''failed''
          [(''error'', JStr ''Missing topic in SQS message'')] (world_with ''pending'')) \<noteq> None \<and>
   fst (researchWorker_handler env_double (Some [Parses (JObj [(''taskId'', JStr ''t1'')])])
          (world_with ''pending'')) = Inr None \<and>
   table (snd (researchWorker_handler env_double (Some [Parses (JObj [(''taskId'', JStr ''t1'')])])
          (world_with ''pending''))) = table (world_with ''pending'')"
proof -
  have u: "fst (updateTaskStatus env_ok (JStr ''t1'') ''failed''
          [(''error'', JStr ''Missing topic in SQS message'')] (world_with ''pending'')) = None"
    by (simp add: updateTaskStatus_error send_def env_ok_def apply_update_error)
  have d: "fst (updateTaskStatus env_double (JStr ''t1'') ''failed''
          [(''error'', JStr ''Missing topic in SQS message'')] (world_with ''pending'')) \<noteq> None"
    by (simp add: updateTaskStatus_error send_def env_double_def env_ok_def)
  show ?thesis
    using u d
      worker_missing_topic [of "JObj [(''taskId'', JStr ''t1'')]" "JStr ''t1''" None env_ok "[]"
        "world_with ''pending''"]
      worker_missing_topic [of "JObj [(''taskId'', JStr ''t1'')]" "JStr ''t1''" None env_double "[]"
        "world_with ''pending''"]
    by simp
qed

text \<open>
  Claim C2 (idempotence under redelivery), as stated, fails when the read of the guard
  throws: the read is inside the main \<^verbatim>\<open>try\<close>, and its \<^verbatim>\<open>catch\<close> marks the task
  \<^verbatim>\<open>failed\<close> without looking at the stored status. Here the record of \<open>t1\<close> is
  \<^verbatim>\<open>researched\<close> and the read throws: the delivery sends the read and then the update to
  \<^verbatim>\<open>failed\<close>, the record ends \<^verbatim>\<open>failed\<close>, and the handler throws instead of returning
  the "already complete" outcome.
\<close>

theorem researched_read_failure:
  "status_of (world_with ''researched'') (JStr ''t1'') = Some (JStr ''researched'') \<and>
   fst (researchWorker_handler env_get_down event_t1 (world_with ''researched'')) =
     Inl (Error ''DynamoDB unavailable'') \<and>
   trace (snd (researchWorker_handler env_get_down event_t1 (world_with ''researched''))) =
     [GetCommand (JStr ''t1''),
      UpdateCommand (JStr ''t1'')
        [(''#status'', '':status''), (''updatedAt'', '':now''), (''#error'', '':error'')]
        [(''#status'', ''status''), (''#error'', ''error'')]
        [('':status'', JStr ''failed''), ('':now'', JStr ''2026-01-01T00:00:00.000Z''),
         ('':error'', JStr ''DynamoDB unavailable'')]] \<and>
   status_of (snd (researchWorker_handler env_get_down event_t1 (world_with ''researched'')))
     (JStr ''t1'') = Some (JStr ''failed'')"
  by (simp add: researchWorker_handler_def event_t1_def parse_message_item research_steps_def
      send_def env_get_down_def env_ok_def world_with_def world_empty_def status_of_def
      item_field_def updateTaskStatus_error apply_update_error Let_def)

text \<open>
  Claim C2, amended. For a work item \<^verbatim>\<open>{taskId, topic}\<close> of two non-empty strings whose
  stored status is \<^verbatim>\<open>researched\<close>: when the read of the guard succeeds, the delivery
  returns \<^verbatim>\<open>{taskId, status: "already_researched"}\<close> and the only command sent is the
  read, so there is no provider call, no blob write and no status write, and the table is
  unchanged. When the read throws \<open>E\<close>, there is still no provider call and no blob
  write, but the delivery sends the update of the record to \<^verbatim>\<open>failed\<close> with the message
  of \<open>E\<close> (the record is \<^verbatim>\<open>failed\<close> if that write succeeds) and throws \<open>E\<close>.
\<close>

theorem worker_idempotent:
  assumes "taskId \<noteq> []" and "topic \<noteq> []"
    and "status_of w (JStr taskId) = Some (JStr ''researched'')"
  shows "(fault e (trace w) (GetCommand (JStr taskId)) = None \<longrightarrow>
            researchWorker_handler e
              (Some (Parses (JObj [(''taskId'', JStr taskId), (''topic'', JStr topic)]) # rest)) w =
            (Inr (Some (JObj [(''taskId'', JStr taskId), (''status'', JStr ''already_researched'')])),
             w\<lparr>trace := trace w @ [GetCommand (JStr taskId)]\<rparr>)) \<and>
         (\<forall>E. fault e (trace w) (GetCommand (JStr taskId)) = Some E \<longrightarrow>
            fst (researchWorker_handler e
              (Some (Parses (JObj [(''taskId'', JStr taskId), (''topic'', JStr topic)]) # rest)) w) =
              Inl E \<and>
            trace (snd (researchWorker_handler e
              (Some (Parses (JObj [(''taskId'', JStr taskId), (''topic'', JStr topic)]) # rest)) w)) =
              trace w @
                [GetCommand (JStr taskId),
                 UpdateCommand (JStr taskId)
                   [(''#status'', '':status''), (''updatedAt'', '':now''), (''#error'', '':error'')]
                   [(''#status'', ''status''), (''#error'', ''error'')]
                   [('':status'', JStr ''failed''),
                    ('':now'', JStr (toISOString e (trace w @ [GetCommand (JStr taskId)]))),
                    ('':error'', JStr (message E))]] \<and>
            bucket (snd (researchWorker_handler e
              (Some (Parses (JObj [(''taskId'', JStr taskId), (''topic'', JStr topic)]) # rest)) w)) =
              bucket w \<and>
            (fst (updateTaskStatus e (JStr taskId) ''failed'' [(''error'', JStr (message E))]
                    (w\<lparr>trace := trace w @ [GetCommand (JStr taskId)]\<rparr>)) = None \<longrightarrow>
             status_of (snd (researchWorker_handler e
               (Some (Parses (JObj [(''taskId'', JStr taskId), (''topic'', JStr topic)]) # rest)) w))
               (JStr taskId) = Some (JStr ''failed'')))"
proof (intro conjI allI impI)
  assume "fault e (trace w) (GetCommand (JStr taskId)) = None"
  then show "researchWorker_handler e
              (Some (Parses (JObj [(''taskId'', JStr taskId), (''topic'', JStr topic)]) # rest)) w =
            (Inr (Some (JObj [(''taskId'', JStr taskId), (''status'', JStr ''already_researched'')])),
             w\<lparr>trace := trace w @ [GetCommand (JStr taskId)]\<rparr>)"
    using assms by (rule worker_skips_researched [rotated 3])
next
  fix E
  let ?h = "researchWorker_handler e
              (Some (Parses (JObj [(''taskId'', JStr taskId), (''topic'', JStr topic)]) # rest)) w"
  let ?w1 = "w\<lparr>trace := trace w @ [GetCommand (JStr taskId)]\<rparr>"
  assume "fault e (trace w) (GetCommand (JStr taskId)) = Some E"
  then have h: "?h = (Inl E, snd (updateTaskStatus e (JStr taskId) ''failed''
      [(''error'', JStr (message E))] ?w1))"
    using assms(1,2) by (rule worker_read_fails [rotated 2])
  show "fst ?h = Inl E"
    by (simp add: h)
  show "trace (snd ?h) = trace w @
                [GetCommand (JStr taskId),
                 UpdateCommand (JStr taskId)
                   [(''#status'', '':status''), (''updatedAt'', '':now''), (''#error'', '':error'')]
                   [(''#status'', ''status''), (''#error'', ''error'')]
                   [('':status'', JStr ''failed''),
                    ('':now'', JStr (toISOString e (trace w @ [GetCommand (JStr taskId)]))),
                    ('':error'', JStr (message E))]]"
    by (simp add: h mark_failed_outcome(1))
  show "bucket (snd ?h) = bucket w"
    by (simp add: h mark_failed_outcome(2))
  show "status_of (snd ?h) (JStr taskId) = Some (JStr ''failed'')"
    if "fst (updateTaskStatus e (JStr taskId) ''failed'' [(''error'', JStr (message E))] ?w1) = None"
    using mark_failed_outcome(3) [OF that] by (simp add: h)
qed

text \<open>
  The test "skips already-researched tasks", and the same delivery when the read throws.
\<close>

theorem worker_idempotent_witness:
  "''t1'' \<noteq> [] \<and> ''test'' \<noteq> [] \<and>
   status_of (world_with ''researched'') (JStr ''t1'') = Some (JStr ''researched'') \<and>
   fault env_ok (trace (world_with ''researched'')) (GetCommand (JStr ''t1'')) = None \<and>
   researchWorker_handler env_ok event_t1 (world_with ''researched'') =
     (Inr (Some (JObj [(''taskId'', JStr ''t1''), (''status'', JStr ''already_researched'')])),
      (world_with ''researched'')\<lparr>trace := [GetCommand (JStr ''t1'')]\<rparr>) \<and>
   fault env_get_down (trace (world_with ''researched'')) (GetCommand (JStr ''t1'')) =
     Some (Error ''DynamoDB unavailable'') \<and>
   fst (researchWorker_handler env_get_down event_t1 (world_with ''researched'')) =
     Inl (Error ''DynamoDB unavailable'') \<and>
   status_of (snd (researchWorker_handler env_get_down event_t1 (world_with ''researched'')))
     (JStr ''t1'') = Some (JStr ''failed'')"
proof -
  have n: "''t1'' \<noteq> []" "''test'' \<noteq> []"
    by simp_all
  have s: "status_of (world_with ''researched'') (JStr ''t1'') = Some (JStr ''researched'')"
    by (simp add: status_of_def item_field_def world_with_def world_empty_def)
  have f: "fault env_ok (trace (world_with ''researched'')) (GetCommand (JStr ''t1'')) = None"
    by (simp add: env_ok_def)
  have g: "fault env_get_down (trace (world_with ''researched'')) (GetCommand (JStr ''t1'')) =
      Some (Error ''DynamoDB unavailable'')"
    by (simp add: env_get_down_def env_ok_def)
  have u: "fst (updateTaskStatus env_get_down (JStr ''t1'') ''failed''
      [(''error'', JStr (message (Error ''DynamoDB unavailable'')))]
      ((world_with ''researched'')\<lparr>trace := trace (world_with ''researched'') @
         [GetCommand (JStr ''t1'')]\<rparr>)) = None"
    by (simp add: updateTaskStatus_error send_def env_get_down_def env_ok_def apply_update_error)
  have tr: "trace (world_with ''researched'') = []"
    by (simp add: world_with_def world_empty_def)
  note hit = worker_idempotent [OF n s, where e = env_ok and rest = "[]", THEN conjunct1, rule_format,
      OF f]
  note miss = worker_idempotent [OF n s, where e = env_get_down and rest = "[]", THEN conjunct2,
      rule_format, OF g]
  from hit miss show ?thesis
    using n s f g u by (simp add: event_t1_def tr)
qed

text \<open>
  Claim C3 (double failure). For a work item of two non-empty strings: when a step of the
  main \<^verbatim>\<open>try\<close> block throws \<open>E\<close> and the write of the record to \<^verbatim>\<open>failed\<close> in the
  \<^verbatim>\<open>catch\<close> branch throws \<open>E2\<close>, the handler throws \<open>E\<close>.
\<close>

theorem worker_double_failure:
  assumes "taskId \<noteq> []" and "topic \<noteq> []"
    and "fst (research_steps e (JStr taskId) (JStr topic) w) = Inl E"
    and "fst (updateTaskStatus e (JStr taskId) ''failed'' [(''error'', JStr (message E))]
                (snd (research_steps e (JStr taskId) (JStr topic) w))) = Some E2"
  shows "fst (researchWorker_handler e
                (Some (Parses (JObj [(''taskId'', JStr taskId), (''topic'', JStr topic)]) # rest)) w) =
         Inl E"
proof -
  obtain w1 where r: "research_steps e (JStr taskId) (JStr topic) w = (Inl E, w1)"
    using assms(3) by (cases "research_steps e (JStr taskId) (JStr topic) w") auto
  then show ?thesis
    by (simp add: worker_string_item [OF assms(1,2)])
qed

lemma research_steps_double:
  "fst (research_steps env_double (JStr ''t1'') (JStr ''test'') (world_with ''pending'')) =
     Inl (Error ''Original Claude error'')"
  by (simp add: research_steps_def send_def env_double_def env_ok_def world_with_def
      world_empty_def status_of_def item_field_def updateTaskStatus_plain apply_update_plain
      getAnthropicApiKey_def Let_def)

lemma update_double:
  "fst (updateTaskStatus env_double (JStr ''t1'') ''failed'' [(''error'', v)] w) =
     Some (Error ''DynamoDB down too'')"
  by (simp add: updateTaskStatus_error send_def env_double_def env_ok_def)

text \<open>The test "re-throws original error even when status update fails".\<close>

theorem worker_double_failure_witness:
  "''t1'' \<noteq> [] \<and> ''test'' \<noteq> [] \<and>
   fst (research_steps env_double (JStr ''t1'') (JStr ''test'') (world_with ''pending'')) =
     Inl (Error ''Original Claude error'') \<and>
   fst (updateTaskStatus env_double (JStr ''t1'') ''failed''
          [(''error'', JStr (message (Error ''Original Claude error'')))]
          (snd (research_steps env_double (JStr ''t1'') (JStr ''test'') (world_with ''pending'')))) =
     Some (Error ''DynamoDB down too'') \<and>
   fst (researchWorker_handler env_double event_t1 (world_with ''pending'')) =
     Inl (Error ''Original Claude error'')"
  using worker_double_failure [of "''t1''" "''test''" env_double "world_with ''pending''"
      "Error ''Original Claude error''" "Error ''DynamoDB down too''" "[]"]
    research_steps_double update_double
  by (simp add: event_t1_def)

text \<open>
  Claim C8 (success path and response extraction). For a work item whose \<^verbatim>\<open>taskId\<close> and
  \<^verbatim>\<open>topic\<close> are non-empty strings and whose task is not yet \<^verbatim>\<open>researched\<close>, when no
  external call fails: if the provider's content is \<open>front @ Block ''text'' str # rear\<close>
  with no text block in \<open>front\<close>, the worker returns
  \<^verbatim>\<open>{taskId, s3Key: "research/<taskId>.md", status: "researched"}\<close>, the bucket holds
  \<open>str\<close> with content type \<^verbatim>\<open>text/markdown\<close> under that key, and the record has
  \<^verbatim>\<open>status = researched\<close> and that \<^verbatim>\<open>s3Key\<close>; if the content has no text block, the
  worker throws \<^verbatim>\<open>Claude returned no text content\<close>, the record is \<^verbatim>\<open>failed\<close> with that
  error, and nothing is written to the bucket.
\<close>

theorem worker_success_path:
  assumes nf: "\<And>tr cmd. fault e tr cmd = None"
    and valid: "taskId \<noteq> []" "topic \<noteq> []"
    and nd: "status_of w (JStr taskId) \<noteq> Some (JStr ''researched'')"
    and reply: "\<And>tr. content e tr (''Research the following topic thoroughly: '' @ topic) = blocks"
    and run: "researchWorker_handler e
                (Some (Parses (JObj [(''taskId'', JStr taskId), (''topic'', JStr topic)]) # rest)) w =
              (result, w')"
  shows "(\<forall>front str rear.
            blocks = front @ Block ''text'' str # rear \<and> (\<forall>b \<in> set front. btype b \<noteq> ''text'') \<longrightarrow>
            result = Inr (Some (JObj [(''taskId'', JStr taskId),
                                      (''s3Key'', JStr (''research/'' @ taskId @ ''.md'')),
                                      (''status'', JStr ''researched'')])) \<and>
            bucket w' (''research/'' @ taskId @ ''.md'') = Some (str, ''text/markdown'') \<and>
            status_of w' (JStr taskId) = Some (JStr ''researched'') \<and>
            item_field w' (JStr taskId) ''s3Key'' = Some (JStr (''research/'' @ taskId @ ''.md''))) \<and>
         ((\<forall>b \<in> set blocks. btype b \<noteq> ''text'') \<longrightarrow>
            result = Inl (Error ''Claude returned no text content'') \<and>
            status_of w' (JStr taskId) = Some (JStr ''failed'') \<and>
            item_field w' (JStr taskId) ''error'' = Some (JStr ''Claude returned no text content'') \<and>
            bucket w' = bucket w)"
proof -
  note run_facts = worker_run_no_fault [OF nf valid nd reply run]
  have good: "result = Inr (Some (JObj [(''taskId'', JStr taskId),
                                      (''s3Key'', JStr (''research/'' @ taskId @ ''.md'')),
                                      (''status'', JStr ''researched'')])) \<and>
            bucket w' (''research/'' @ taskId @ ''.md'') = Some (str, ''text/markdown'') \<and>
            status_of w' (JStr taskId) = Some (JStr ''researched'') \<and>
            item_field w' (JStr taskId) ''s3Key'' = Some (JStr (''research/'' @ taskId @ ''.md''))"
    if "blocks = front @ Block ''text'' str # rear \<and> (\<forall>b \<in> set front. btype b \<noteq> ''text'')"
    for front str rear
    using run_facts(1) [of "Block ''text'' str"] that by (simp add: find_first_text)
  have bad: "result = Inl (Error ''Claude returned no text content'') \<and>
            status_of w' (JStr taskId) = Some (JStr ''failed'') \<and>
            item_field w' (JStr taskId) ''error'' = Some (JStr ''Claude returned no text content'') \<and>
            bucket w' = bucket w"
    if "\<forall>b \<in> set blocks. btype b \<noteq> ''text''"
    using run_facts(2) that by (simp add: find_no_text)
  from good bad show ?thesis by blast
qed

text \<open>
  The tests "finds text block among mixed content types" and "throws when Claude returns
  empty content array".
\<close>

theorem worker_success_path_witness:
  "fst (researchWorker_handler env_mixed event_t1 (world_with ''pending'')) =
     Inr (Some (JObj [(''taskId'', JStr ''t1''), (''s3Key'', JStr ''research/t1.md''),
                      (''status'', JStr ''researched'')])) \<and>
   bucket (snd (researchWorker_handler env_mixed event_t1 (world_with ''pending''))) ''research/t1.md'' =
     Some (''The actual research'', ''text/markdown'') \<and>
   status_of (snd (researchWorker_handler env_mixed event_t1 (world_with ''pending''))) (JStr ''t1'') =
     Some (JStr ''researched'') \<and>
   fst (researchWorker_handler env_no_text event_t1 (world_with ''pending'')) =
     Inl (Error ''Claude returned no text content'') \<and>
   status_of (snd (researchWorker_handler env_no_text event_t1 (world_with ''pending''))) (JStr ''t1'') =
     Some (JStr ''failed'')"
proof -
  let ?w = "world_with ''pending''"
  have nd: "status_of ?w (JStr ''t1'') \<noteq> Some (JStr ''researched'')"
    by (simp add: status_of_def item_field_def world_with_def world_empty_def)
  have ne: "''t1'' \<noteq> []" "''test'' \<noteq> []"
    by simp_all
  have nf1: "\<And>tr cmd. fault env_mixed tr cmd = None"
    by (simp add: env_mixed_def env_ok_def)
  have r1: "\<And>tr. content env_mixed tr (''Research the following topic thoroughly: '' @ ''test'') =
      [Block ''tool_use'' []] @ Block ''text'' ''The actual research'' # []"
    by (simp add: env_mixed_def)
  have run1: "researchWorker_handler env_mixed
      (Some (Parses (JObj [(''taskId'', JStr ''t1''), (''topic'', JStr ''test'')]) # [])) ?w =
      (fst (researchWorker_handler env_mixed event_t1 ?w),
       snd (researchWorker_handler env_mixed event_t1 ?w))"
    by (simp add: event_t1_def)
  have nf2: "\<And>tr cmd. fault env_no_text tr cmd = None"
    by (simp add: env_no_text_def env_ok_def)
  have r2: "\<And>tr. content env_no_text tr (''Research the following topic thoroughly: '' @ ''test'') = []"
    by (simp add: env_no_text_def)
  have run2: "researchWorker_handler env_no_text
      (Some (Parses (JObj [(''taskId'', JStr ''t1''), (''topic'', JStr ''test'')]) # [])) ?w =
      (fst (researchWorker_handler env_no_text event_t1 ?w),
       snd (researchWorker_handler env_no_text event_t1 ?w))"
    by (simp add: event_t1_def)
  note mixed = worker_success_path [OF nf1 ne nd r1 run1, THEN conjunct1, rule_format,
      of "[Block ''tool_use'' []]" "''The actual research''" "[]"]
  note no_text = worker_success_path [OF nf2 ne nd r2 run2, THEN conjunct2, rule_format]
  from mixed no_text show ?thesis by simp
qed

text \<open>
  Claim C10 (frame property of \<^verbatim>\<open>updateTaskStatus\<close>). A status update that succeeds on an
  existing record sets \<^verbatim>\<open>status\<close>, \<^verbatim>\<open>updatedAt\<close> (to the clock's reading) and the
  supplied extra fields, and leaves every other attribute of the record, every other
  record, the queue and the bucket as they were. It holds for every \<^verbatim>\<open>extraFields\<close>
  whose keys are distinct and are none of \<^verbatim>\<open>status\<close>, \<^verbatim>\<open>updatedAt\<close>, \<^verbatim>\<open>taskId\<close>,
  \<^verbatim>\<open>now\<close>; the worker's three calls pass \<^verbatim>\<open>{}\<close>, \<^verbatim>\<open>{s3Key}\<close> and \<^verbatim>\<open>{error}\<close>.
  In particular \<^verbatim>\<open>taskId\<close>, \<^verbatim>\<open>topic\<close> and \<^verbatim>\<open>createdAt\<close> are unchanged.
\<close>

theorem updateTaskStatus_frame:
  assumes "distinct (map fst extraFields)"
    and "\<forall>k \<in> set (map fst extraFields). k \<notin> {''status'', ''updatedAt'', ''taskId'', ''now''}"
    and "table w taskId = Some item"
    and "updateTaskStatus e taskId status extraFields w = (None, w')"
  shows "\<exists>item'. table w' taskId = Some item' \<and>
           map_of item' =
             (map_of item ++ map_of extraFields)
               (''status'' \<mapsto> JStr status, ''updatedAt'' \<mapsto> JStr (toISOString e (trace w))) \<and>
           (\<forall>name. name \<notin> {''status'', ''updatedAt''} \<union> set (map fst extraFields) \<longrightarrow>
                   map_of item' name = map_of item name) \<and>
           (\<forall>other. other \<noteq> taskId \<longrightarrow> table w' other = table w other) \<and>
           queue w' = queue w \<and> bucket w' = bucket w"
proof -
  let ?now = "JStr (toISOString e (trace w))"
  obtain parts names vals where a: "add_extra extraFields
             ([(''#status'', '':status''), (''updatedAt'', '':now'')],
              [(''#status'', ''status'')],
              [('':status'', JStr status), ('':now'', ?now)]) = (parts, names, vals)"
    by (metis prod_cases3)
  let ?cmd = "UpdateCommand taskId parts names vals"
  let ?item' = "set_fields ([(''status'', JStr status), (''updatedAt'', ?now)] @ extraFields) item"
  have "send e ?cmd w = (None, w')"
    using assms(4) a by (simp add: updateTaskStatus_def)
  then have "perform ?cmd (w\<lparr>trace := trace w @ [?cmd]\<rparr>) = Inr w'"
    by (rule send_succeeded)
  moreover have "apply_update (Some item) taskId parts names vals = Some ?item'"
    using updateTaskStatus_resolved [OF assms(1,2) a, of "Some item" taskId] by simp
  ultimately have w': "w' = w\<lparr>trace := trace w @ [?cmd], table := (table w)(taskId \<mapsto> ?item')\<rparr>"
    using assms(3) by auto
  have st: "''status'' \<notin> set (map fst extraFields)" and up: "''updatedAt'' \<notin> set (map fst extraFields)"
    using assms(2) by auto
  have r: "map_of (rev extraFields) = map_of extraFields"
    using assms(1) by (subst map_of_inject_set) (simp_all add: rev_map [symmetric])
  have s0: "map_of extraFields ''status'' = None" "map_of extraFields ''updatedAt'' = None"
    using st up by (simp_all add: map_of_eq_None_iff)
  have "map_of ?item' =
          (map_of item)(''status'' \<mapsto> JStr status, ''updatedAt'' \<mapsto> ?now) ++ map_of extraFields"
    by (simp add: map_of_set_fields map_of_set_field r)
  also have "\<dots> = (map_of item ++ map_of extraFields)
               (''status'' \<mapsto> JStr status, ''updatedAt'' \<mapsto> ?now)"
    using s0 by (auto simp: fun_eq_iff map_add_def split: option.splits)
  finally have m: "map_of ?item' =
             (map_of item ++ map_of extraFields)
               (''status'' \<mapsto> JStr status, ''updatedAt'' \<mapsto> ?now)" .
  have fr: "\<forall>name. name \<notin> {''status'', ''updatedAt''} \<union> set (map fst extraFields) \<longrightarrow>
                   map_of ?item' name = map_of item name"
  proof (intro allI impI)
    fix name
    assume "name \<notin> {''status'', ''updatedAt''} \<union> set (map fst extraFields)"
    then have "name \<noteq> ''status''" "name \<noteq> ''updatedAt''" "map_of extraFields name = None"
      by (simp_all add: map_of_eq_None_iff)
    then show "map_of ?item' name = map_of item name"
      unfolding m by (simp add: map_add_def)
  qed
  show ?thesis
    using m fr by (intro exI [of _ ?item']) (simp add: w')
qed

text \<open>The transition to \<^verbatim>\<open>researched\<close> of task \<open>t1\<close>.\<close>

theorem updateTaskStatus_frame_witness:
  "distinct (map fst [(''s3Key'', JStr ''research/t1.md'')]) \<and>
   ''s3Key'' \<notin> {''status'', ''updatedAt'', ''taskId'', ''now''} \<and>
   table (world_with ''researching'') (JStr ''t1'') =
     Some [(''taskId'', JStr ''t1''), (''status'', JStr ''researching''), (''topic'', JStr ''test''),
           (''createdAt'', JStr ''2025-12-31T00:00:00.000Z''),
           (''updatedAt'', JStr ''2025-12-31T00:00:00.000Z'')] \<and>
   fst (updateTaskStatus env_ok (JStr ''t1'') ''researched''
          [(''s3Key'', JStr ''research/t1.md'')] (world_with ''researching'')) = None \<and>
   (\<exists>item'. table (snd (updateTaskStatus env_ok (JStr ''t1'') ''researched''
                          [(''s3Key'', JStr ''research/t1.md'')] (world_with ''researching'')))
                 (JStr ''t1'') = Some item' \<and>
      map_of item' ''status'' = Some (JStr ''researched'') \<and>
      map_of item' ''updatedAt'' = Some (JStr ''2026-01-01T00:00:00.000Z'') \<and>
      map_of item' ''s3Key'' = Some (JStr ''research/t1.md'') \<and>
      map_of item' ''taskId'' = Some (JStr ''t1'') \<and>
      map_of item' ''topic'' = Some (JStr ''test'') \<and>
      map_of item' ''createdAt'' = Some (JStr ''2025-12-31T00:00:00.000Z''))"
proof -
  let ?u = "updateTaskStatus env_ok (JStr ''t1'') ''researched''
          [(''s3Key'', JStr ''research/t1.md'')] (world_with ''researching'')"
  have t: "table (world_with ''researching'') (JStr ''t1'') =
     Some [(''taskId'', JStr ''t1''), (''status'', JStr ''researching''), (''topic'', JStr ''test''),
           (''createdAt'', JStr ''2025-12-31T00:00:00.000Z''),
           (''updatedAt'', JStr ''2025-12-31T00:00:00.000Z'')]"
    by (simp add: world_with_def world_empty_def)
  have u: "fst ?u = None"
    by (simp add: updateTaskStatus_s3Key send_def env_ok_def apply_update_s3Key)
  then have "?u = (None, snd ?u)"
    by (metis prod.collapse)
  from updateTaskStatus_frame [OF _ _ t this]
  obtain item' where i: "table (snd ?u) (JStr ''t1'') = Some item'"
    "map_of item' =
       (map_of [(''taskId'', JStr ''t1''), (''status'', JStr ''researching''), (''topic'', JStr ''test''),
           (''createdAt'', JStr ''2025-12-31T00:00:00.000Z''),
           (''updatedAt'', JStr ''2025-12-31T00:00:00.000Z'')] ++
        map_of [(''s3Key'', JStr ''research/t1.md'')])
       (''status'' \<mapsto> JStr ''researched'',
        ''updatedAt'' \<mapsto> JStr (toISOString env_ok (trace (world_with ''researching''))))"
    by auto
  have c: "toISOString env_ok (trace (world_with ''researching'')) = ''2026-01-01T00:00:00.000Z''"
    by (simp add: env_ok_def)
  show ?thesis
    using t u i by (simp add: c)
qed




section \<open>The accept handler\<close>

text \<open>
  Claim C6 (invalid input is rejected without side effects) fails at the request body
  \<^verbatim>\<open>null\<close>: it parses, destructuring \<^verbatim>\<open>topic\<close> from it throws a TypeError inside the
  outer \<^verbatim>\<open>try\<close>, and the outer \<^verbatim>\<open>catch\<close> answers 500, not 400. Nothing is written or
  published. Every other input of the claim is answered with 400 and no side effect
  (\<open>accept_rejects_invalid\<close>).
\<close>

theorem accept_null_body:
  "statusCode (fst (research_handler e (Parses JNull) w)) = 500 \<and>
   snd (research_handler e (Parses JNull) w) = w"
  by (simp add: research_handler_def accept_steps_def parse_body_def)

text \<open>
  Claim C7 (accept, success path). When the body parses to a value whose \<^verbatim>\<open>topic\<close> is a
  non-empty string of at most 500 code units, and the store write and the publish succeed,
  the handler answers 202 with the generated \<^verbatim>\<open>taskId\<close> and \<^verbatim>\<open>status: "pending"\<close>; the
  table holds, under that id, the record with \<^verbatim>\<open>status = pending\<close>, the topic, and
  \<^verbatim>\<open>createdAt = updatedAt\<close>; the one message published is \<^verbatim>\<open>{taskId, topic}\<close>.
\<close>

theorem accept_success:
  assumes "get_prop parsed ''topic'' = Inr (Some (JStr topic))"
    and "topic \<noteq> []" and "length topic \<le> 500"
    and "taskId = randomUUID e (trace w)" and "now = toISOString e (trace w)"
    and "item = [(''taskId'', JStr taskId), (''status'', JStr ''pending''), (''topic'', JStr topic),
                 (''createdAt'', JStr now), (''updatedAt'', JStr now)]"
    and "msg = JObj [(''taskId'', JStr taskId), (''topic'', JStr topic)]"
    and "fault e (trace w) (PutCommand item) = None"
    and "fault e (trace w @ [PutCommand item]) (SendMessageCommand msg) = None"
  shows "research_handler e (Parses parsed) w =
           (\<lparr>statusCode = 202,
             body = JObj [(''taskId'', JStr taskId), (''status'', JStr ''pending''),
                          (''message'', JStr ''Research task queued for processing'')]\<rparr>,
            w\<lparr>trace := trace w @ [PutCommand item, SendMessageCommand msg],
              table := (table w)(JStr taskId \<mapsto> item),
              queue := queue w @ [msg]\<rparr>)"
proof -
  let ?w1 = "w\<lparr>trace := trace w @ [PutCommand item], table := (table w)(JStr taskId \<mapsto> item)\<rparr>"
  have p: "send e (PutCommand item) w = (None, ?w1)"
    using assms(6,8) by (simp add: send_no_fault)
  have q: "send e (SendMessageCommand msg) ?w1 =
      (None, w\<lparr>trace := trace w @ [PutCommand item, SendMessageCommand msg],
              table := (table w)(JStr taskId \<mapsto> item),
              queue := queue w @ [msg]\<rparr>)"
    using assms(9) by (simp add: send_no_fault)
  show ?thesis
    unfolding research_handler_def accept_valid_steps [OF assms(1,2,3)] Let_def
      assms(4) [symmetric] assms(5) [symmetric] assms(6) [symmetric] assms(7) [symmetric]
    by (simp add: p q)
qed

text \<open>
  The test "accepts topic at exactly 500 characters".
\<close>

theorem accept_success_witness:
  "get_prop (JObj [(''topic'', JStr (replicate 500 CHR ''a''))]) ''topic'' =
     Inr (Some (JStr (replicate 500 CHR ''a''))) \<and>
   replicate 500 CHR ''a'' \<noteq> [] \<and> length (replicate 500 CHR ''a'') \<le> 500 \<and>
   research_handler env_ok (Parses (JObj [(''topic'', JStr (replicate 500 CHR ''a''))])) world_empty =
     (\<lparr>statusCode = 202,
       body = JObj [(''taskId'', JStr ''test-task-id-1234''), (''status'', JStr ''pending''),
                    (''message'', JStr ''Research task queued for processing'')]\<rparr>,
      world_empty
        \<lparr>trace :=
           [PutCommand [(''taskId'', JStr ''test-task-id-1234''), (''status'', JStr ''pending''),
                        (''topic'', JStr (replicate 500 CHR ''a'')),
                        (''createdAt'', JStr ''2026-01-01T00:00:00.000Z''),
                        (''updatedAt'', JStr ''2026-01-01T00:00:00.000Z'')],
            SendMessageCommand (JObj [(''taskId'', JStr ''test-task-id-1234''),
                                      (''topic'', JStr (replicate 500 CHR ''a''))])],
         table := [JStr ''test-task-id-1234'' \<mapsto>
           [(''taskId'', JStr ''test-task-id-1234''), (''status'', JStr ''pending''),
            (''topic'', JStr (replicate 500 CHR ''a'')),
            (''createdAt'', JStr ''2026-01-01T00:00:00.000Z''),
            (''updatedAt'', JStr ''2026-01-01T00:00:00.000Z'')]],
         queue := [JObj [(''taskId'', JStr ''test-task-id-1234''),
                         (''topic'', JStr (replicate 500 CHR ''a''))]]\<rparr>)"
proof -
  have g: "get_prop (JObj [(''topic'', JStr (replicate 500 CHR ''a''))]) ''topic'' =
     Inr (Some (JStr (replicate 500 CHR ''a'')))"
    by simp
  have n: "replicate 500 CHR ''a'' \<noteq> []" and l: "length (replicate 500 CHR ''a'') \<le> 500"
    by simp_all
  have u: "''test-task-id-1234'' = randomUUID env_ok (trace world_empty)"
    and c: "''2026-01-01T00:00:00.000Z'' = toISOString env_ok (trace world_empty)"
    by (simp_all add: env_ok_def)
  have f: "\<And>tr cmd. fault env_ok tr cmd = None"
    by (simp add: env_ok_def)
  from accept_success [OF g n l u c refl refl f f]
  show ?thesis
    using g n l by (simp add: world_empty_def)
qed

text \<open>
  Claim C9 (publish failure is compensated). When the store write succeeds and the
  publish fails, the handler answers 500 with \<^verbatim>\<open>Failed to place message on queue\<close>,
  nothing is queued, and the third command sent is the update of the record to
  \<^verbatim>\<open>failed\<close> with that error. If that update succeeds the record is \<^verbatim>\<open>failed\<close>; if
  it fails the record stays \<^verbatim>\<open>pending\<close>, and the response is the same.
\<close>

theorem accept_publish_failure:
  assumes "get_prop parsed ''topic'' = Inr (Some (JStr topic))"
    and "topic \<noteq> []" and "length topic \<le> 500"
    and "taskId = randomUUID e (trace w)" and "now = toISOString e (trace w)"
    and "item = [(''taskId'', JStr taskId), (''status'', JStr ''pending''), (''topic'', JStr topic),
                 (''createdAt'', JStr now), (''updatedAt'', JStr now)]"
    and "msg = JObj [(''taskId'', JStr taskId), (''topic'', JStr topic)]"
    and "mark = UpdateCommand (JStr taskId)
                  [(''#status'', '':status''), (''updatedAt'', '':now''), (''#error'', '':error'')]
                  [(''#status'', ''status''), (''#error'', ''error'')]
                  [('':status'', JStr ''failed''),
                   ('':now'', JStr (toISOString e (trace w @ [PutCommand item, SendMessageCommand msg]))),
                   ('':error'', JStr ''Failed to place message on queue'')]"
    and "fault e (trace w) (PutCommand item) = None"
    and "fault e (trace w @ [PutCommand item]) (SendMessageCommand msg) = Some err"
    and "research_handler e (Parses parsed) w = (resp, w')"
  shows "resp = \<lparr>statusCode = 500,
                  body = JObj [(''error'', JStr ''Failed to place message on queue'')]\<rparr> \<and>
         queue w' = queue w \<and>
         trace w' = trace w @ [PutCommand item, SendMessageCommand msg, mark] \<and>
         (fault e (trace w @ [PutCommand item, SendMessageCommand msg]) mark = None \<longrightarrow>
            table w' (JStr taskId) =
              Some [(''taskId'', JStr taskId), (''status'', JStr ''failed''), (''topic'', JStr topic),
                    (''createdAt'', JStr now),
                    (''updatedAt'', JStr (toISOString e
                        (trace w @ [PutCommand item, SendMessageCommand msg]))),
                    (''error'', JStr ''Failed to place message on queue'')]) \<and>
         (fault e (trace w @ [PutCommand item, SendMessageCommand msg]) mark \<noteq> None \<longrightarrow>
            table w' (JStr taskId) = Some item)"
proof -
  let ?w1 = "w\<lparr>trace := trace w @ [PutCommand item], table := (table w)(JStr taskId \<mapsto> item)\<rparr>"
  let ?w2 = "w\<lparr>trace := trace w @ [PutCommand item, SendMessageCommand msg],
               table := (table w)(JStr taskId \<mapsto> item)\<rparr>"
  have p: "send e (PutCommand item) w = (None, ?w1)"
    using assms(6,9) by (simp add: send_no_fault)
  have q: "send e (SendMessageCommand msg) ?w1 = (Some err, ?w2)"
    using assms(10) by (simp add: send_def)
  have t2: "trace ?w2 = trace w @ [PutCommand item, SendMessageCommand msg]"
    by simp
  have h: "research_handler e (Parses parsed) w =
      (\<lparr>statusCode = 500, body = JObj [(''error'', JStr ''Failed to place message on queue'')]\<rparr>,
       snd (send e mark ?w2))"
    unfolding research_handler_def accept_valid_steps [OF assms(1,2,3)] Let_def
      assms(4) [symmetric] assms(5) [symmetric] assms(6) [symmetric] assms(7) [symmetric]
    by (simp add: p q assms(8) split: prod.splits)
  with assms(11) have r: "resp = \<lparr>statusCode = 500,
                  body = JObj [(''error'', JStr ''Failed to place message on queue'')]\<rparr>"
    and w': "w' = snd (send e mark ?w2)"
    by simp_all
  have a: "apply_update (Some item) (JStr taskId)
                  [(''#status'', '':status''), (''updatedAt'', '':now''), (''#error'', '':error'')]
                  [(''#status'', ''status''), (''#error'', ''error'')]
                  [('':status'', JStr ''failed''),
                   ('':now'', JStr (toISOString e (trace w @ [PutCommand item, SendMessageCommand msg]))),
                   ('':error'', JStr ''Failed to place message on queue'')] =
      Some [(''taskId'', JStr taskId), (''status'', JStr ''failed''), (''topic'', JStr topic),
                    (''createdAt'', JStr now),
                    (''updatedAt'', JStr (toISOString e
                        (trace w @ [PutCommand item, SendMessageCommand msg]))),
                    (''error'', JStr ''Failed to place message on queue'')]"
    by (simp add: apply_update_error assms(6))
  have ok: "fault e (trace w @ [PutCommand item, SendMessageCommand msg]) mark = None \<Longrightarrow>
      table (snd (send e mark ?w2)) (JStr taskId) =
        Some [(''taskId'', JStr taskId), (''status'', JStr ''failed''), (''topic'', JStr topic),
                    (''createdAt'', JStr now),
                    (''updatedAt'', JStr (toISOString e
                        (trace w @ [PutCommand item, SendMessageCommand msg]))),
                    (''error'', JStr ''Failed to place message on queue'')]"
    using a by (simp add: send_no_fault assms(8))
  have ko: "fault e (trace w @ [PutCommand item, SendMessageCommand msg]) mark \<noteq> None \<Longrightarrow>
      table (snd (send e mark ?w2)) (JStr taskId) = Some item"
    by (auto simp: send_def)
  have q': "queue (snd (send e mark ?w2)) = queue w"
    by (auto simp: send_def Let_def assms(8) split: option.splits sum.splits)
  have t': "trace (snd (send e mark ?w2)) = trace w @ [PutCommand item, SendMessageCommand msg, mark]"
    by (simp add: send_trace)
  show ?thesis
    using r ok ko q' t' unfolding w' by blast
qed

text \<open>
  The tests "marks task as failed when SQS send fails" and "returns 500 even when
  DynamoDB update also fails after SQS failure".
\<close>

theorem accept_publish_failure_witness:
  "get_prop (JObj [(''topic'', JStr ''test topic'')]) ''topic'' = Inr (Some (JStr ''test topic'')) \<and>
   ''test topic'' \<noteq> [] \<and> length ''test topic'' \<le> 500 \<and>
   fault env_sqs_down []
     (PutCommand [(''taskId'', JStr ''test-task-id-1234''), (''status'', JStr ''pending''),
                  (''topic'', JStr ''test topic''),
                  (''createdAt'', JStr ''2026-01-01T00:00:00.000Z''),
                  (''updatedAt'', JStr ''2026-01-01T00:00:00.000Z'')]) = None \<and>
   fault env_sqs_down
     [PutCommand [(''taskId'', JStr ''test-task-id-1234''), (''status'', JStr ''pending''),
                  (''topic'', JStr ''test topic''),
                  (''createdAt'', JStr ''2026-01-01T00:00:00.000Z''),
                  (''updatedAt'', JStr ''2026-01-01T00:00:00.000Z'')]]
     (SendMessageCommand (JObj [(''taskId'', JStr ''test-task-id-1234''),
                                (''topic'', JStr ''test topic'')])) =
     Some (Error ''SQS unavailable'') \<and>
   fst (research_handler env_sqs_down (Parses (JObj [(''topic'', JStr ''test topic'')])) world_empty) =
     \<lparr>statusCode = 500, body = JObj [(''error'', JStr ''Failed to place message on queue'')]\<rparr> \<and>
   table (snd (research_handler env_sqs_down (Parses (JObj [(''topic'', JStr ''test topic'')]))
                 world_empty)) (JStr ''test-task-id-1234'') =
     Some [(''taskId'', JStr ''test-task-id-1234''), (''status'', JStr ''failed''),
           (''topic'', JStr ''test topic''),
           (''createdAt'', JStr ''2026-01-01T00:00:00.000Z''),
           (''updatedAt'', JStr ''2026-01-01T00:00:00.000Z''),
           (''error'', JStr ''Failed to place message on queue'')] \<and>
   queue (snd (research_handler env_sqs_down (Parses (JObj [(''topic'', JStr ''test topic'')]))
                 world_empty)) = [] \<and>
   fst (research_handler env_broken (Parses (JObj [(''topic'', JStr ''test topic'')])) world_empty) =
     \<lparr>statusCode = 500, body = JObj [(''error'', JStr ''Failed to place message on queue'')]\<rparr> \<and>
   table (snd (research_handler env_broken (Parses (JObj [(''topic'', JStr ''test topic'')]))
                 world_empty)) (JStr ''test-task-id-1234'') =
     Some [(''taskId'', JStr ''test-task-id-1234''), (''status'', JStr ''pending''),
           (''topic'', JStr ''test topic''),
           (''createdAt'', JStr ''2026-01-01T00:00:00.000Z''),
           (''updatedAt'', JStr ''2026-01-01T00:00:00.000Z'')]"
proof -
  let ?r = "research_handler env_sqs_down (Parses (JObj [(''topic'', JStr ''test topic'')])) world_empty"
  have g: "get_prop (JObj [(''topic'', JStr ''test topic'')]) ''topic'' =
      Inr (Some (JStr ''test topic''))"
    by simp
  have n: "''test topic'' \<noteq> []" and l: "length ''test topic'' \<le> 500"
    by simp_all
  have u: "''test-task-id-1234'' = randomUUID env_sqs_down (trace world_empty)"
    and c: "''2026-01-01T00:00:00.000Z'' = toISOString env_sqs_down (trace world_empty)"
    by (simp_all add: env_sqs_down_def env_ok_def)
  have f1: "\<And>tr item. fault env_sqs_down tr (PutCommand item) = None"
    and f2: "\<And>tr msg. fault env_sqs_down tr (SendMessageCommand msg) = Some (Error ''SQS unavailable'')"
    and f3: "\<And>tr k p n v. fault env_sqs_down tr (UpdateCommand k p n v) = None"
    and ck: "\<And>tr. toISOString env_sqs_down tr = ''2026-01-01T00:00:00.000Z''"
    by (simp_all add: env_sqs_down_def env_ok_def)
  have run: "?r = (fst ?r, snd ?r)"
    by simp
  let ?r' = "research_handler env_broken (Parses (JObj [(''topic'', JStr ''test topic'')])) world_empty"
  have u': "''test-task-id-1234'' = randomUUID env_broken (trace world_empty)"
    and c': "''2026-01-01T00:00:00.000Z'' = toISOString env_broken (trace world_empty)"
    by (simp_all add: env_broken_def env_ok_def)
  have b1: "\<And>cmd. fault env_broken (trace world_empty) cmd = None"
    and b2: "\<And>cmd1 tr cmd. fault env_broken (trace world_empty @ cmd1 # tr) cmd =
        Some (Error ''Everything is broken'')"
    by (simp_all add: env_broken_def env_ok_def world_empty_def)
  have b3: "\<And>cmd1 tr cmd. fault env_broken (cmd1 # tr) cmd = Some (Error ''Everything is broken'')"
    and ck': "\<And>tr. toISOString env_broken tr = ''2026-01-01T00:00:00.000Z''"
    by (simp_all add: env_broken_def env_ok_def)
  have run': "?r' = (fst ?r', snd ?r')"
    by simp
  from accept_publish_failure [OF g n l u c refl refl refl f1 f2 run]
    accept_publish_failure [OF g n l u' c' refl refl refl b1 b2 [of _ "[]"] run']
  show ?thesis
    using g n l by (simp add: f1 f2 f3 ck b3 ck' world_empty_def)
qed

end
